theory Spec2Isabelle
  imports Main "HOL-Library.Multiset"
begin

section \<open>JavaScript strings, errors and the clock\<close>

text \<open>
  Strings are ASCII character lists.  \<open>toUpperCase\<close> and \<open>toLowerCase\<close> map the 26 letters and
  leave every other character alone; \<open>str_includes s sub\<close> is \<open>s.includes(sub)\<close>, a
  case-sensitive search for a contiguous substring.  Instants (\<open>Date.now()\<close>, and the ISO
  strings made from it) are integers, in milliseconds.
\<close>

definition toUpperChar :: "char \<Rightarrow> char" where
  "toUpperChar c =
     (case map_of (zip ''abcdefghijklmnopqrstuvwxyz'' ''ABCDEFGHIJKLMNOPQRSTUVWXYZ'') c of
        Some u \<Rightarrow> u | None \<Rightarrow> c)"

definition toLowerChar :: "char \<Rightarrow> char" where
  "toLowerChar c =
     (case map_of (zip ''ABCDEFGHIJKLMNOPQRSTUVWXYZ'' ''abcdefghijklmnopqrstuvwxyz'') c of
        Some l \<Rightarrow> l | None \<Rightarrow> c)"

definition toUpperCase :: "string \<Rightarrow> string" where
  "toUpperCase s = map toUpperChar s"

definition toLowerCase :: "string \<Rightarrow> string" where
  "toLowerCase s = map toLowerChar s"

fun startsWith :: "string \<Rightarrow> string \<Rightarrow> bool" where
  "startsWith s [] = True"
| "startsWith [] (p # ps) = False"
| "startsWith (c # cs) (p # ps) = (c = p \<and> startsWith cs ps)"

fun str_includes :: "string \<Rightarrow> string \<Rightarrow> bool" where
  "str_includes [] sub = (sub = [])"
| "str_includes (c # cs) sub = (startsWith (c # cs) sub \<or> str_includes cs sub)"

text \<open>
  A thrown value: an \<open>Error\<close> instance with its \<open>name\<close> and \<open>message\<close>, or anything else
  (\<open>error instanceof Error\<close> is false).
\<close>

datatype js_error = JsError (err_name: string) (err_message: string) | NonError

section \<open>The network\<close>

record request =
  req_url :: string
  req_method :: string
  req_headers :: "(string \<times> string) list"
  req_body :: "string option"

record http_response =
  resp_status :: int
  resp_statusText :: string
  resp_headers :: "(string \<times> string) list"
  resp_body :: string

definition resp_ok :: "http_response \<Rightarrow> bool" where
  "resp_ok r = (200 \<le> resp_status r \<and> resp_status r \<le> 299)"

datatype fetch_result = Responded http_response | Rejected js_error

text \<open>
  The network answers a request with a response or a rejection, after some milliseconds.
  \<open>fetch_with_timeout\<close> is the pattern of health.ts and proxy.ts: an \<open>AbortController\<close>
  whose timer fires after \<open>bound\<close> milliseconds; a call the timer overtakes rejects with an
  error named \<open>AbortError\<close>, and the time measured is the bound.
\<close>

type_synonym network = "request \<Rightarrow> fetch_result \<times> int"

definition abortError :: js_error where
  "abortError = JsError ''AbortError'' ''The operation was aborted''"

definition fetch_with_timeout :: "network \<Rightarrow> request \<Rightarrow> int \<Rightarrow> fetch_result \<times> int" where
  "fetch_with_timeout net req bound =
     (case net req of (res, d) \<Rightarrow> if bound < d then (Rejected abortError, bound) else (res, d))"

section \<open>types.ts\<close>

datatype health_status = Online | Offline | Degraded | Unknown

datatype check_status = CheckOnline | CheckOffline | CheckDegraded

datatype auth_type = AuthNone | ApiKey | OAuth

record author =
  author_name :: string
  author_url :: "string option"
  github :: "string option"

record authentication =
  auth_kind :: auth_type
  required :: bool

record MCPServer =
  server_id :: string
  server_name :: string
  server_description :: string
  url :: string
  server_version :: string
  tags :: "string list"
  server_author :: author
  verified :: bool
  healthStatus :: health_status
  lastChecked :: int
  capabilities :: "string list option"
  auth :: "authentication option"
  createdAt :: int
  updatedAt :: int

record registry_stats =
  totalServers :: nat
  onlineServers :: nat
  totalRequests :: nat

record Registry =
  registry_version :: string
  lastUpdated :: int
  servers :: "MCPServer list"
  stats :: registry_stats

text \<open>
  \<open>HealthCheckResult.status\<close> has the three values of \<open>check_status\<close>; a server's
  \<open>healthStatus\<close> has \<open>unknown\<close> as well.  \<open>responseTime\<close> and \<open>error\<close> are optional
  fields.
\<close>

record HealthCheckResult =
  serverId :: string
  status :: check_status
  responseTime :: "int option"
  error :: "string option"
  timestamp :: int

section \<open>health.ts: one probe\<close>

definition HEALTH_CHECK_TIMEOUT :: int where
  "HEALTH_CHECK_TIMEOUT = 30000"

definition HEALTH_CHECK_CACHE_TTL :: int where
  "HEALTH_CHECK_CACHE_TTL = 300"

definition MAX_CONCURRENT_CHECKS :: nat where
  "MAX_CONCURRENT_CHECKS = 10"

definition health_request :: "MCPServer \<Rightarrow> request" where
  "health_request server =
     \<lparr>req_url = url server, req_method = ''HEAD'',
      req_headers = [(''User-Agent'', ''MCP-Hub-Health-Checker/1.0''), (''Accept'', ''application/json'')],
      req_body = None\<rparr>"

text \<open>
  \<open>checkServerHealth\<close>: the \<open>try\<close> block classifies a response, the \<open>catch\<close> block a
  rejection.  \<open>startTime\<close> is the clock when the probe starts.
\<close>

definition checkServerHealth :: "network \<Rightarrow> int \<Rightarrow> MCPServer \<Rightarrow> HealthCheckResult" where
  "checkServerHealth net startTime server =
     (case fetch_with_timeout net (health_request server) HEALTH_CHECK_TIMEOUT of
        (Responded response, elapsed) \<Rightarrow>
          \<lparr>serverId = server_id server,
           status =
             (if resp_ok response then (if elapsed > 10000 then CheckDegraded else CheckOnline)
              else if resp_status response \<ge> 500 then CheckDegraded
              else CheckOffline),
           responseTime = Some elapsed,
           error = None,
           timestamp = startTime + elapsed\<rparr>
      | (Rejected err, elapsed) \<Rightarrow>
          (case err of
             JsError nm msg \<Rightarrow>
               if nm = ''AbortError'' \<or> str_includes msg ''timeout'' then
                 \<lparr>serverId = server_id server, status = CheckDegraded, responseTime = Some elapsed,
                  error = Some ''Request timeout'', timestamp = startTime + elapsed\<rparr>
               else if str_includes msg ''fetch'' \<or> str_includes msg ''network'' then
                 \<lparr>serverId = server_id server, status = CheckOffline, responseTime = Some elapsed,
                  error = Some ''Network error'', timestamp = startTime + elapsed\<rparr>
               else
                 \<lparr>serverId = server_id server, status = CheckOffline, responseTime = Some elapsed,
                  error = Some msg, timestamp = startTime + elapsed\<rparr>
           | NonError \<Rightarrow>
               \<lparr>serverId = server_id server, status = CheckOffline, responseTime = Some elapsed,
                error = Some ''Unknown error'', timestamp = startTime + elapsed\<rparr>))"

section \<open>The key-value store and the request context\<close>

text \<open>
  \<open>env.MCP_CACHE\<close> holds JSON documents under string keys, each with the instant at which
  the store itself drops it (\<open>expirationTtl\<close>, in seconds, counted from the write).  The
  documents the worker writes have four shapes.  An operation listed in \<open>faults\<close> rejects
  with the given error: that is the unreachable store.
\<close>

record health_summary =
  hs_totalServers :: nat
  hs_onlineServers :: nat
  hs_degradedServers :: nat
  hs_offlineServers :: nat
  hs_lastUpdated :: int

datatype 'd kv_value =
    VCacheEntry (ce_data: 'd) (ce_timestamp: int) (ce_ttl: int)
  | VRateLimit (rl_requests: "int list") (rl_windowStart: int)
  | VHealth HealthCheckResult
  | VSummary health_summary

datatype kv_op = OpGet | OpPut | OpDelete

record 'd KVNamespace =
  entries :: "string \<Rightarrow> ('d kv_value \<times> int) option"
  faults :: "kv_op \<Rightarrow> js_error option"

definition kv_get :: "'d KVNamespace \<Rightarrow> string \<Rightarrow> int \<Rightarrow> js_error + 'd kv_value option" where
  "kv_get kv k t =
     (case faults kv OpGet of
        Some e \<Rightarrow> Inl e
      | None \<Rightarrow>
          (case entries kv k of
             None \<Rightarrow> Inr None
           | Some (v, expires) \<Rightarrow> if t < expires then Inr (Some v) else Inr None))"

definition kv_put ::
  "'d KVNamespace \<Rightarrow> string \<Rightarrow> 'd kv_value \<Rightarrow> int \<Rightarrow> int \<Rightarrow> js_error + 'd KVNamespace" where
  "kv_put kv k v expirationTtl t =
     (case faults kv OpPut of
        Some e \<Rightarrow> Inl e
      | None \<Rightarrow> Inr (kv\<lparr>entries := (entries kv)(k \<mapsto> (v, t + expirationTtl * 1000))\<rparr>))"

definition kv_delete :: "'d KVNamespace \<Rightarrow> string \<Rightarrow> js_error + 'd KVNamespace" where
  "kv_delete kv k =
     (case faults kv OpDelete of
        Some e \<Rightarrow> Inl e
      | None \<Rightarrow> Inr (kv\<lparr>entries := (entries kv)(k := None)\<rparr>))"

text \<open>
  The request context: the store, the client address, and the incoming request as far as
  the handlers read it (the query parameters of its URL and its JSON body).  \<open>now\<close> is the
  clock, which stands still but for the time outbound calls take, and \<open>calls\<close> lists the
  outbound calls issued, oldest first.
  \<open>proxy_logs\<close> holds the log documents of proxy.ts that the store accepted; they are
  written under keys of their own (\<open>proxy_log:...\<close>) that nothing here reads, and the
  rolling statistics written beside them are left out.
\<close>

datatype call_kind = RegistryFetch | HealthProbe | ProxyForward

datatype body_value = NoBody | StringBody string | JsonBody string

record ProxyRequest =
  pr_serverId :: "string option"
  pr_path :: "string option"
  pr_method :: "string option"
  pr_headers :: "(string \<times> string) list option"
  pr_body :: body_value

record log_entry =
  log_serverId :: string
  log_targetUrl :: string
  log_method :: string
  requestHeaders :: "(string \<times> string) list"
  requestBody :: "string option"
  responseStatus :: int
  responseHeaders :: "(string \<times> string) list"
  responseBody :: string
  log_responseTime :: int
  log_error :: "string option"
  log_timestamp :: int

record 'd RequestContext =
  MCP_CACHE :: "'d KVNamespace"
  ip :: "string option"
  now :: int
  calls :: "(call_kind \<times> request) list"
  proxy_logs :: "log_entry list"
  searchParams :: "(string \<times> string) list"
  request_json :: "ProxyRequest option"

section \<open>cache.ts\<close>

text \<open>
  \<open>getCachedData\<close> returns \<open>null\<close> (here \<open>None\<close>) for a miss, for an entry past its own
  \<open>ttl\<close>, which it deletes, and when the store rejects.  A document of another shape has no
  \<open>timestamp\<close>, so the comparison with \<open>NaN\<close> is false and its absent \<open>data\<close> comes back:
  \<open>undefined\<close>, which every caller treats as a miss.
\<close>

definition getCachedData ::
  "'d RequestContext \<Rightarrow> string \<Rightarrow> 'd option \<times> 'd RequestContext" where
  "getCachedData ctx k =
     (case kv_get (MCP_CACHE ctx) k (now ctx) of
        Inl e \<Rightarrow> (None, ctx)
      | Inr None \<Rightarrow> (None, ctx)
      | Inr (Some (VCacheEntry d ts ttl)) \<Rightarrow>
          if now ctx > ts + ttl * 1000 then
            (case kv_delete (MCP_CACHE ctx) k of
               Inl e \<Rightarrow> (None, ctx)
             | Inr kv' \<Rightarrow> (None, ctx\<lparr>MCP_CACHE := kv'\<rparr>))
          else (Some d, ctx)
      | Inr (Some _) \<Rightarrow> (None, ctx))"

definition setCachedData ::
  "'d RequestContext \<Rightarrow> string \<Rightarrow> 'd \<Rightarrow> int \<Rightarrow> bool \<times> 'd RequestContext" where
  "setCachedData ctx k d ttl =
     (case kv_put (MCP_CACHE ctx) k (VCacheEntry d (now ctx) ttl) (ttl + 60) (now ctx) of
        Inl e \<Rightarrow> (False, ctx)
      | Inr kv' \<Rightarrow> (True, ctx\<lparr>MCP_CACHE := kv'\<rparr>))"

definition deleteCachedData :: "'d RequestContext \<Rightarrow> string \<Rightarrow> bool \<times> 'd RequestContext" where
  "deleteCachedData ctx k =
     (case kv_delete (MCP_CACHE ctx) k of
        Inl e \<Rightarrow> (False, ctx)
      | Inr kv' \<Rightarrow> (True, ctx\<lparr>MCP_CACHE := kv'\<rparr>))"

section \<open>auth.ts: the rate limiter\<close>

definition RATE_LIMIT_WINDOW :: int where
  "RATE_LIMIT_WINDOW = 60 * 1000"

definition RATE_LIMIT_MAX_REQUESTS :: nat where
  "RATE_LIMIT_MAX_REQUESTS = 100"

record RateLimitResult =
  allowed :: bool
  limit :: int
  remaining :: int
  reset :: int

text \<open>
  The \<open>try\<close> block of \<open>checkRateLimit\<close>, for a client address that is present.  Reading
  \<open>requests\<close> off a document of another shape gives \<open>undefined\<close>, and calling \<open>filter\<close> on
  it throws a \<open>TypeError\<close>.
\<close>

definition checkRateLimit_try ::
  "'d RequestContext \<Rightarrow> string \<Rightarrow> js_error + RateLimitResult \<times> 'd RequestContext" where
  "checkRateLimit_try ctx client =
     (let rateLimitKey = ''rate_limit:'' @ client;
          windowStart = now ctx - RATE_LIMIT_WINDOW
      in case kv_get (MCP_CACHE ctx) rateLimitKey (now ctx) of
           Inl e \<Rightarrow> Inl e
         | Inr rateLimitData \<Rightarrow>
             (case (case rateLimitData of
                      None \<Rightarrow> Inr []
                    | Some (VRateLimit reqs ws) \<Rightarrow> Inr (filter (\<lambda>ts. ts > windowStart) reqs)
                    | Some _ \<Rightarrow>
                        Inl (JsError ''TypeError'' ''Cannot read properties of undefined'')) of
                Inl e \<Rightarrow> Inl e
              | Inr requests \<Rightarrow>
                  if length requests \<ge> RATE_LIMIT_MAX_REQUESTS then
                    Inr (\<lparr>allowed = False, limit = int RATE_LIMIT_MAX_REQUESTS, remaining = 0,
                          reset = requests ! 0 + RATE_LIMIT_WINDOW\<rparr>, ctx)
                  else
                    (let requests' = requests @ [now ctx]
                     in case kv_put (MCP_CACHE ctx) rateLimitKey (VRateLimit requests' (now ctx))
                               (RATE_LIMIT_WINDOW div 1000 + 60) (now ctx) of
                          Inl e \<Rightarrow> Inl e
                        | Inr kv' \<Rightarrow>
                            Inr (\<lparr>allowed = True, limit = int RATE_LIMIT_MAX_REQUESTS,
                                  remaining = int RATE_LIMIT_MAX_REQUESTS - int (length requests'),
                                  reset = now ctx + RATE_LIMIT_WINDOW\<rparr>,
                                 ctx\<lparr>MCP_CACHE := kv'\<rparr>))))"

text \<open>
  \<open>checkRateLimit\<close>: a missing or empty address is admitted without a look at the store; a
  throw of the \<open>try\<close> block is admitted as well (the \<open>catch\<close> block).
\<close>

definition checkRateLimit :: "'d RequestContext \<Rightarrow> RateLimitResult \<times> 'd RequestContext" where
  "checkRateLimit ctx =
     (let admitted = \<lparr>allowed = True, limit = int RATE_LIMIT_MAX_REQUESTS,
                      remaining = int RATE_LIMIT_MAX_REQUESTS - 1,
                      reset = now ctx + RATE_LIMIT_WINDOW\<rparr>
      in case ip ctx of
           None \<Rightarrow> (admitted, ctx)
         | Some client \<Rightarrow>
             if client = [] then (admitted, ctx)
             else (case checkRateLimit_try ctx client of
                     Inl e \<Rightarrow> (admitted, ctx)
                   | Inr res \<Rightarrow> res))"

section \<open>The platform\<close>

text \<open>
  What the runtime supplies and the repository only calls: \<open>fetch\<close>, the JSON reading of
  the registry document, and the \<open>URL\<close> constructor (the input and an optional base;
  \<open>None\<close> is the \<open>TypeError\<close> of an input that does not parse).  Of a parsed URL the worker
  reads \<open>origin\<close> and the serialisation (\<open>toString()\<close>, here \<open>href\<close>).

  The registry document is read as far as \<open>fetchRegistryFromGitHub\<close> looks at it:
  \<open>doc_version\<close> is the \<open>version\<close> string when there is one, and \<open>doc_servers\<close> tells a
  falsy or missing \<open>servers\<close> from one that is not an array and from an array.
\<close>

record URL =
  origin :: string
  href :: string

datatype servers_field = ServersFalsy | ServersNotArray | ServersArray "MCPServer list"

record registry_doc =
  doc_version :: "string option"
  doc_lastUpdated :: int
  doc_servers :: servers_field
  doc_stats :: registry_stats

datatype json_top = JsonNull | JsonScalar | JsonObject registry_doc

record platform =
  fetch :: network
  parse_json :: "string \<Rightarrow> json_top option"
  new_URL :: "string \<Rightarrow> string option \<Rightarrow> URL option"

text \<open>
  An awaited outbound call is entered in \<open>calls\<close> and moves the clock on by the time it
  took: what the code reads from \<open>Date.now()\<close> or \<open>new Date()\<close> after the \<open>await\<close> is the
  later instant.
\<close>

definition do_fetch ::
  "platform \<Rightarrow> call_kind \<Rightarrow> request \<Rightarrow> 'd RequestContext \<Rightarrow> (fetch_result \<times> int) \<times> 'd RequestContext" where
  "do_fetch pf kind req ctx =
     (case fetch pf req of
        (res, d) \<Rightarrow> ((res, d), ctx\<lparr>calls := calls ctx @ [(kind, req)], now := now ctx + d\<rparr>))"

definition do_fetch_with_timeout ::
  "platform \<Rightarrow> call_kind \<Rightarrow> request \<Rightarrow> int \<Rightarrow> 'd RequestContext \<Rightarrow>
     (fetch_result \<times> int) \<times> 'd RequestContext" where
  "do_fetch_with_timeout pf kind req bound ctx =
     (case fetch_with_timeout (fetch pf) req bound of
        (res, d) \<Rightarrow> ((res, d), ctx\<lparr>calls := calls ctx @ [(kind, req)], now := now ctx + d\<rparr>))"

text \<open>Decimal digits of a number, for \<open>toString()\<close> and template strings.\<close>

function show_nat :: "nat \<Rightarrow> string" where
  "show_nat n =
     (if n < 10 then [''0123456789'' ! n]
      else show_nat (n div 10) @ [''0123456789'' ! (n mod 10)])"
  by pat_completeness auto
termination
  by (relation "measure (\<lambda>n. n)") auto

definition show_int :: "int \<Rightarrow> string" where
  "show_int i = (if i < 0 then CHR ''-'' # show_nat (nat (- i)) else show_nat (nat i))"

section \<open>registry.ts\<close>

definition REGISTRY_CACHE_KEY :: string where
  "REGISTRY_CACHE_KEY = ''registry''"

definition REGISTRY_CACHE_TTL :: int where
  "REGISTRY_CACHE_TTL = 300"

definition GITHUB_REGISTRY_URL :: string where
  "GITHUB_REGISTRY_URL =
     ''https://raw.githubusercontent.com/YOUR_USERNAME/mcp-hub/main/dashboard/public/servers.json''"

definition registry_request :: request where
  "registry_request =
     \<lparr>req_url = GITHUB_REGISTRY_URL, req_method = ''GET'', req_headers = [], req_body = None\<rparr>"

definition createFallbackRegistry :: "int \<Rightarrow> Registry" where
  "createFallbackRegistry t =
     \<lparr>registry_version = ''1.0.0'',
      lastUpdated = t,
      servers =
        [\<lparr>server_id = ''example-mcp'',
          server_name = ''Example MCP Server'',
          server_description = ''A sample MCP server for demonstration purposes'',
          url = ''https://example.com/mcp'',
          server_version = ''1.0.0'',
          tags = [''example'', ''demo''],
          server_author =
            \<lparr>author_name = ''MCP Hub Team'', author_url = None, github = Some ''mcp-hub''\<rparr>,
          verified = True,
          healthStatus = Unknown,
          lastChecked = t,
          capabilities = Some [''query'', ''chat'', ''tools''],
          auth = Some \<lparr>auth_kind = AuthNone, required = False\<rparr>,
          createdAt = t,
          updatedAt = t\<rparr>],
      stats = \<lparr>totalServers = 1, onlineServers = 0, totalRequests = 0\<rparr>\<rparr>"

text \<open>
  \<open>fetchRegistryFromGitHub\<close> throws when the call rejects, when the response is not 2xx,
  when the body is not JSON or is \<open>null\<close>, and when the document has no truthy \<open>version\<close>
  or its \<open>servers\<close> is not an array.
\<close>

definition fetchRegistryFromGitHub ::
  "platform \<Rightarrow> 'd RequestContext \<Rightarrow> (js_error + Registry) \<times> 'd RequestContext" where
  "fetchRegistryFromGitHub pf ctx =
     (case do_fetch pf RegistryFetch registry_request ctx of
        ((Rejected e, d), ctx') \<Rightarrow> (Inl e, ctx')
      | ((Responded response, d), ctx') \<Rightarrow>
          if \<not> resp_ok response then
            (Inl (JsError ''Error'' (''Failed to fetch registry: '' @ show_int (resp_status response))),
             ctx')
          else
            (case parse_json pf (resp_body response) of
               None \<Rightarrow> (Inl (JsError ''SyntaxError'' ''Unexpected token''), ctx')
             | Some JsonNull \<Rightarrow>
                 (Inl (JsError ''TypeError'' ''Cannot read properties of null''), ctx')
             | Some JsonScalar \<Rightarrow> (Inl (JsError ''Error'' ''Invalid registry format''), ctx')
             | Some (JsonObject doc) \<Rightarrow>
                 (case (doc_version doc, doc_servers doc) of
                    (Some v, ServersArray srvs) \<Rightarrow>
                      if v = [] then (Inl (JsError ''Error'' ''Invalid registry format''), ctx')
                      else
                        (Inr \<lparr>registry_version = v, lastUpdated = doc_lastUpdated doc,
                              servers = srvs, stats = doc_stats doc\<rparr>,
                         ctx')
                  | _ \<Rightarrow> (Inl (JsError ''Error'' ''Invalid registry format''), ctx'))))"

text \<open>The \<open>try\<close> block of \<open>getRegistry\<close>, and \<open>getRegistry\<close> with its \<open>catch\<close> block.\<close>

definition getRegistry_try ::
  "platform \<Rightarrow> Registry RequestContext \<Rightarrow> (js_error + Registry) \<times> Registry RequestContext" where
  "getRegistry_try pf ctx =
     (case getCachedData ctx REGISTRY_CACHE_KEY of
        (Some cached, ctx1) \<Rightarrow> (Inr cached, ctx1)
      | (None, ctx1) \<Rightarrow>
          (case fetchRegistryFromGitHub pf ctx1 of
             (Inl e, ctx2) \<Rightarrow> (Inl e, ctx2)
           | (Inr registry, ctx2) \<Rightarrow>
               (case setCachedData ctx2 REGISTRY_CACHE_KEY registry REGISTRY_CACHE_TTL of
                  (stored, ctx3) \<Rightarrow> (Inr registry, ctx3))))"

definition getRegistry ::
  "platform \<Rightarrow> Registry RequestContext \<Rightarrow> Registry \<times> Registry RequestContext" where
  "getRegistry pf ctx =
     (case getRegistry_try pf ctx of
        (Inr registry, ctx') \<Rightarrow> (registry, ctx')
      | (Inl e, ctx') \<Rightarrow> (createFallbackRegistry (now ctx'), ctx'))"

definition getServer ::
  "platform \<Rightarrow> Registry RequestContext \<Rightarrow> string \<Rightarrow> MCPServer option \<times> Registry RequestContext" where
  "getServer pf ctx sid =
     (case getRegistry pf ctx of
        (registry, ctx') \<Rightarrow> (find (\<lambda>server. server_id server = sid) (servers registry), ctx'))"

text \<open>
  The query filter of \<open>searchServers\<close> and of the list endpoint, and \<open>searchServers\<close>: a
  filter is applied when its argument is given (and, for \<open>query\<close> and \<open>tags\<close>, not empty).
\<close>

definition matches_query :: "string \<Rightarrow> MCPServer \<Rightarrow> bool" where
  "matches_query searchTerm server =
     (str_includes (toLowerCase (server_name server)) searchTerm \<or>
      str_includes (toLowerCase (server_description server)) searchTerm \<or>
      list_ex (\<lambda>tag. str_includes (toLowerCase tag) searchTerm) (tags server))"

definition has_some_tag :: "string list \<Rightarrow> MCPServer \<Rightarrow> bool" where
  "has_some_tag wanted server = list_ex (\<lambda>tag. tag \<in> set (tags server)) wanted"

definition searchServers ::
  "platform \<Rightarrow> Registry RequestContext \<Rightarrow> string option \<Rightarrow> string list option \<Rightarrow> bool option \<Rightarrow>
     MCPServer list \<times> Registry RequestContext" where
  "searchServers pf ctx query wanted verif =
     (case getRegistry pf ctx of
        (registry, ctx') \<Rightarrow>
          (let servers0 = servers registry;
               servers1 =
                 (case query of
                    None \<Rightarrow> servers0
                  | Some q \<Rightarrow>
                      if q = [] then servers0
                      else filter (matches_query (toLowerCase q)) servers0);
               servers2 =
                 (case wanted of
                    None \<Rightarrow> servers1
                  | Some ts \<Rightarrow> if length ts > 0 then filter (has_some_tag ts) servers1 else servers1);
               servers3 =
                 (case verif of
                    None \<Rightarrow> servers2
                  | Some v \<Rightarrow> filter (\<lambda>server. verified server = v) servers2)
           in (servers3, ctx')))"

section \<open>health.ts: the sweep\<close>

text \<open>
  A probe is what \<open>checkServerHealth(server)\<close> does when started at some instant: it
  settles after some milliseconds, with a result or, should it reject, with the thrown
  value.  \<open>health_probe\<close> is the probe of the repository, which always settles with a result;
  the sweep is written over any probe, so that its \<open>.catch\<close> handler has a meaning.
\<close>

type_synonym probe = "int \<Rightarrow> MCPServer \<Rightarrow> (js_error + HealthCheckResult) \<times> int"

definition health_probe :: "network \<Rightarrow> probe" where
  "health_probe net t server =
     (Inr (checkServerHealth net t server),
      snd (fetch_with_timeout net (health_request server) HEALTH_CHECK_TIMEOUT))"

text \<open>One element of \<open>batchPromises\<close>: the probe with its \<open>.catch\<close> handler.\<close>

definition guarded_probe :: "probe \<Rightarrow> int \<Rightarrow> MCPServer \<Rightarrow> HealthCheckResult \<times> int" where
  "guarded_probe pr t server =
     (case pr t server of
        (Inr res, d) \<Rightarrow> (res, d)
      | (Inl e, d) \<Rightarrow>
          (\<lparr>serverId = server_id server,
            status = CheckOffline,
            responseTime = None,
            error = Some (case e of JsError nm msg \<Rightarrow> msg | NonError \<Rightarrow> ''Health check failed''),
            timestamp = t + d\<rparr>, d))"

text \<open>
  One run of the loop body: the servers of the batch are probed together, all started at
  \<open>b_start\<close>, and \<open>Promise.all\<close> settles when the slowest has settled, at \<open>b_end\<close>.
\<close>

record batch_run =
  b_start :: int
  b_servers :: "MCPServer list"
  b_results :: "HealthCheckResult list"
  b_end :: int

definition run_batch :: "probe \<Rightarrow> int \<Rightarrow> MCPServer list \<Rightarrow> batch_run" where
  "run_batch pr t batch =
     (let settled = map (guarded_probe pr t) batch
      in \<lparr>b_start = t, b_servers = batch, b_results = map fst settled,
          b_end = t + foldr max (map snd settled) 0\<rparr>)"

text \<open>
  The loop \<open>for (let i = 0; i < servers.length; i += MAX_CONCURRENT_CHECKS)\<close>: the batch is
  \<open>servers.slice(i, i + MAX_CONCURRENT_CHECKS)\<close>, and the next run starts when this one has
  ended.
\<close>

function sweep_from :: "probe \<Rightarrow> nat \<Rightarrow> MCPServer list \<Rightarrow> int \<Rightarrow> batch_run list" where
  "sweep_from pr i srvs t =
     (if i < length srvs then
        (let run = run_batch pr t (take MAX_CONCURRENT_CHECKS (drop i srvs))
         in run # sweep_from pr (i + MAX_CONCURRENT_CHECKS) srvs (b_end run))
      else [])"
  by pat_completeness auto
termination
  by (relation "measure (\<lambda>(pr, i, srvs, t). length srvs - i)")
     (auto simp: MAX_CONCURRENT_CHECKS_def)

declare sweep_from.simps [simp del]

text \<open>
  \<open>storeHealthCheckResults\<close>: one write per result and one for the summary, all started
  before any is awaited; a write that rejects changes nothing, and the \<open>catch\<close> block keeps
  the rejection from the caller.
\<close>

definition put_or_skip ::
  "'d KVNamespace \<Rightarrow> string \<Rightarrow> 'd kv_value \<Rightarrow> int \<Rightarrow> int \<Rightarrow> 'd KVNamespace" where
  "put_or_skip kv k v expirationTtl t =
     (case kv_put kv k v expirationTtl t of Inl e \<Rightarrow> kv | Inr kv' \<Rightarrow> kv')"

definition summarize :: "HealthCheckResult list \<Rightarrow> int \<Rightarrow> health_summary" where
  "summarize results t =
     \<lparr>hs_totalServers = length results,
      hs_onlineServers = length (filter (\<lambda>r. status r = CheckOnline) results),
      hs_degradedServers = length (filter (\<lambda>r. status r = CheckDegraded) results),
      hs_offlineServers = length (filter (\<lambda>r. status r = CheckOffline) results),
      hs_lastUpdated = t\<rparr>"

definition storeHealthCheckResults ::
  "'d RequestContext \<Rightarrow> HealthCheckResult list \<Rightarrow> 'd RequestContext" where
  "storeHealthCheckResults ctx results =
     (let kv1 = foldl (\<lambda>kv r. put_or_skip kv (''health:'' @ serverId r) (VHealth r)
                                   (HEALTH_CHECK_CACHE_TTL * 2) (now ctx))
                      (MCP_CACHE ctx) results;
          kv2 = put_or_skip kv1 ''health:summary'' (VSummary (summarize results (now ctx)))
                  (HEALTH_CHECK_CACHE_TTL * 2) (now ctx)
      in ctx\<lparr>MCP_CACHE := kv2\<rparr>)"

text \<open>
  \<open>checkAllServersHealth\<close> over a probe: the registry is read, the batches run one after
  the other, the clock has moved to the end of the last batch, and the results are stored.
\<close>

definition sweep_with ::
  "probe \<Rightarrow> platform \<Rightarrow> Registry RequestContext \<Rightarrow>
     HealthCheckResult list \<times> batch_run list \<times> Registry RequestContext" where
  "sweep_with pr pf ctx =
     (case getRegistry pf ctx of
        (registry, ctx1) \<Rightarrow>
          (let runs = sweep_from pr 0 (servers registry) (now ctx1);
               results = concat (map b_results runs);
               ctx2 = ctx1\<lparr>now := (if runs = [] then now ctx1 else b_end (last runs)),
                           calls := calls ctx1 @
                             map (\<lambda>server. (HealthProbe, health_request server))
                                 (concat (map b_servers runs))\<rparr>
           in (results, runs, storeHealthCheckResults ctx2 results)))"

definition checkAllServersHealth ::
  "platform \<Rightarrow> Registry RequestContext \<Rightarrow> HealthCheckResult list \<times> Registry RequestContext" where
  "checkAllServersHealth pf ctx =
     (case sweep_with (health_probe (fetch pf)) pf ctx of
        (results, runs, ctx') \<Rightarrow> (results, ctx'))"

section \<open>schema-federation.ts: the merge\<close>

text \<open>
  Tool, resource and prompt definitions share \<open>name\<close>, \<open>description\<close> and the optional
  \<open>namespace\<close>, and extend them with fields of their own; a JSON value kept as it came
  (\<open>inputSchema\<close>, \<open>arguments\<close>) is its text.
\<close>

record NamedDefinition =
  name :: string
  description :: string
  namespace :: "string option"

record ToolDefinition = NamedDefinition +
  inputSchema :: "string option"
  outputSchema :: "string option"

record ResourceDefinition = NamedDefinition +
  uri :: string
  mimeType :: "string option"

record PromptDefinition = NamedDefinition +
  arguments :: "string list option"

datatype conflict_type = ToolConflict | ResourceConflict | PromptConflict

datatype resolution = ByNamespace | ByRename | ByMerge

record SchemaConflict =
  conflict_kind :: conflict_type
  conflict_name :: string
  conflict_servers :: "string list"
  conflict_resolution :: resolution

record MCPSchema =
  schema_serverId :: string
  schema_serverName :: string
  schema_version :: string
  schema_namespace :: "string option"
  schema_tools :: "ToolDefinition list option"
  schema_resources :: "ResourceDefinition list option"
  schema_prompts :: "PromptDefinition list option"
  schema_capabilities :: "string list option"
  lastFetched :: int

record FederatedSchema =
  fs_version :: string
  fs_servers :: "string list"
  fs_tools :: "ToolDefinition list"
  fs_resources :: "ResourceDefinition list"
  fs_prompts :: "PromptDefinition list"
  fs_capabilities :: "string list"
  fs_namespaces :: "string list"
  fs_conflicts :: "SchemaConflict list"
  fs_lastUpdated :: int

text \<open>
  \<open>namespace || 'unknown'\<close>: a missing or empty namespace reads as \<open>unknown\<close>.
\<close>

definition namespace_or_unknown :: "'a NamedDefinition_scheme \<Rightarrow> string" where
  "namespace_or_unknown d =
     (case namespace d of None \<Rightarrow> ''unknown'' | Some ns \<Rightarrow> if ns = [] then ''unknown'' else ns)"

text \<open>
  The \<open>Map\<close> from a name to the definitions of that name: keys in the order of their first
  insertion, each with its definitions in the order of the input.
\<close>

fun group_add ::
  "'a NamedDefinition_scheme \<Rightarrow> (string \<times> 'a NamedDefinition_scheme list) list \<Rightarrow>
     (string \<times> 'a NamedDefinition_scheme list) list" where
  "group_add d [] = [(name d, [d])]"
| "group_add d ((k, ds) # rest) =
     (if k = name d then (k, ds @ [d]) # rest else (k, ds) # group_add d rest)"

definition group_by_name ::
  "'a NamedDefinition_scheme list \<Rightarrow> (string \<times> 'a NamedDefinition_scheme list) list" where
  "group_by_name defs = foldl (\<lambda>m d. group_add d m) [] defs"

definition namespaced :: "'a NamedDefinition_scheme \<Rightarrow> 'a NamedDefinition_scheme" where
  "namespaced d = d\<lparr>name := namespace_or_unknown d @ '':'' @ name d\<rparr>"

text \<open>
  \<open>resolveToolConflicts\<close>, \<open>resolveResourceConflicts\<close> and \<open>resolvePromptConflicts\<close> are the
  same text but for the type of the definitions and the \<open>type\<close> written into a conflict:
  \<open>resolve_conflicts\<close> is that text, over the entries of the \<open>Map\<close>.
\<close>

fun resolve_entries ::
  "conflict_type \<Rightarrow> (string \<times> 'a NamedDefinition_scheme list) list \<Rightarrow>
     'a NamedDefinition_scheme list \<times> SchemaConflict list" where
  "resolve_entries kind [] = ([], [])"
| "resolve_entries kind ((nm, ds) # rest) =
     (case resolve_entries kind rest of
        (resolved, conflicts) \<Rightarrow>
          if length ds = 1 then (ds ! 0 # resolved, conflicts)
          else
            (map namespaced ds @ resolved,
             \<lparr>conflict_kind = kind, conflict_name = nm,
              conflict_servers = map namespace_or_unknown ds,
              conflict_resolution = ByNamespace\<rparr> # conflicts))"

definition resolve_conflicts ::
  "conflict_type \<Rightarrow> 'a NamedDefinition_scheme list \<Rightarrow>
     'a NamedDefinition_scheme list \<times> SchemaConflict list" where
  "resolve_conflicts kind defs = resolve_entries kind (group_by_name defs)"

definition resolveToolConflicts ::
  "ToolDefinition list \<Rightarrow> ToolDefinition list \<times> SchemaConflict list" where
  "resolveToolConflicts tools = resolve_conflicts ToolConflict tools"

definition resolveResourceConflicts ::
  "ResourceDefinition list \<Rightarrow> ResourceDefinition list \<times> SchemaConflict list" where
  "resolveResourceConflicts resources = resolve_conflicts ResourceConflict resources"

definition resolvePromptConflicts ::
  "PromptDefinition list \<Rightarrow> PromptDefinition list \<times> SchemaConflict list" where
  "resolvePromptConflicts prompts = resolve_conflicts PromptConflict prompts"

text \<open>A \<open>Set\<close> filled by \<open>add\<close> and read by \<open>Array.from\<close>: first occurrences, in order.\<close>

definition set_add :: "string list \<Rightarrow> string \<Rightarrow> string list" where
  "set_add acc x = (if x \<in> set acc then acc else acc @ [x])"

definition or_empty :: "'a list option \<Rightarrow> 'a list" where
  "or_empty xs = (case xs of None \<Rightarrow> [] | Some ys \<Rightarrow> ys)"

definition mergeSchemas :: "MCPSchema list \<Rightarrow> int \<Rightarrow> FederatedSchema" where
  "mergeSchemas schemas t =
     (let allTools = concat (map (\<lambda>s. or_empty (schema_tools s)) schemas);
          allResources = concat (map (\<lambda>s. or_empty (schema_resources s)) schemas);
          allPrompts = concat (map (\<lambda>s. or_empty (schema_prompts s)) schemas);
          allCapabilities =
            foldl set_add [] (concat (map (\<lambda>s. or_empty (schema_capabilities s)) schemas));
          allNamespaces =
            foldl set_add []
              (concat (map (\<lambda>s. case schema_namespace s of
                                    None \<Rightarrow> []
                                  | Some ns \<Rightarrow> if ns = [] then [] else [ns]) schemas))
      in case resolveToolConflicts allTools of
           (resolvedTools, toolConflicts) \<Rightarrow>
             (case resolveResourceConflicts allResources of
                (resolvedResources, resourceConflicts) \<Rightarrow>
                  (case resolvePromptConflicts allPrompts of
                     (resolvedPrompts, promptConflicts) \<Rightarrow>
                       \<lparr>fs_version = ''1.0.0'',
                        fs_servers = map schema_serverId schemas,
                        fs_tools = resolvedTools,
                        fs_resources = resolvedResources,
                        fs_prompts = resolvedPrompts,
                        fs_capabilities = allCapabilities,
                        fs_namespaces = allNamespaces,
                        fs_conflicts = toolConflicts @ resourceConflicts @ promptConflicts,
                        fs_lastUpdated = t\<rparr>)))"

text \<open>
  Two notions for reasoning about the merge: \<open>grouped m defs\<close> says that \<open>m\<close> is the \<open>Map\<close>
  of \<open>defs\<close> (distinct keys, each with the definitions of that name, in order),
  \<open>rename_rule defs d\<close> is \<open>d\<close> when it is the only definition of its name in \<open>defs\<close> and
  \<open>d\<close> renamed otherwise, and \<open>conflict_of\<close> is the conflict record of a name and its
  definitions.
\<close>

definition grouped :: "(string \<times> 'a NamedDefinition_scheme list) list \<Rightarrow> 'a NamedDefinition_scheme list \<Rightarrow> bool" where
  "grouped m defs =
     (distinct (map fst m) \<and>
      (\<forall>k. map_of m k =
            (if filter (\<lambda>d. name d = k) defs = [] then None
             else Some (filter (\<lambda>d. name d = k) defs))))"

definition rename_rule ::
  "'a NamedDefinition_scheme list \<Rightarrow> 'a NamedDefinition_scheme \<Rightarrow> 'a NamedDefinition_scheme" where
  "rename_rule defs d =
     (if length (filter (\<lambda>z. name z = name d) defs) = 1 then d else namespaced d)"

definition conflict_of :: "conflict_type \<Rightarrow> string \<Rightarrow> 'a NamedDefinition_scheme list \<Rightarrow> SchemaConflict" where
  "conflict_of kind n ds =
     \<lparr>conflict_kind = kind, conflict_name = n, conflict_servers = map namespace_or_unknown ds,
      conflict_resolution = ByNamespace\<rparr>"

section \<open>proxy.ts\<close>

definition PROXY_TIMEOUT :: int where
  "PROXY_TIMEOUT = 30000"

definition MAX_BODY_SIZE :: nat where
  "MAX_BODY_SIZE = 10 * 1024 * 1024"

definition ALLOWED_METHODS :: "string list" where
  "ALLOWED_METHODS = [''GET'', ''POST'', ''PUT'', ''PATCH'', ''DELETE'', ''HEAD'', ''OPTIONS'']"

record ProxyResponse =
  success :: bool
  proxy_status :: int
  statusText :: string
  headers :: "(string \<times> string) list"
  body :: string
  proxy_responseTime :: int
  proxy_error :: "string option"

text \<open>
  A JavaScript object with string keys and values: its entries in insertion order.
  \<open>obj_set\<close> is the assignment \<open>o[k] = v\<close>, \<open>obj_delete\<close> is \<open>delete o[k]\<close>, and
  \<open>obj_truthy\<close> reads a property that is present and not the empty string.
\<close>

fun obj_set :: "(string \<times> string) list \<Rightarrow> string \<Rightarrow> string \<Rightarrow> (string \<times> string) list" where
  "obj_set [] k v = [(k, v)]"
| "obj_set ((k', v') # rest) k v =
     (if k' = k then (k, v) # rest else (k', v') # obj_set rest k v)"

definition obj_delete :: "(string \<times> string) list \<Rightarrow> string \<Rightarrow> (string \<times> string) list" where
  "obj_delete obj k = filter (\<lambda>kv. fst kv \<noteq> k) obj"

definition obj_truthy :: "(string \<times> string) list \<Rightarrow> string \<Rightarrow> string option" where
  "obj_truthy obj k = (case map_of obj k of None \<Rightarrow> None | Some v \<Rightarrow> if v = [] then None else Some v)"

definition allowedHeaders :: "string list" where
  "allowedHeaders =
     [''accept'', ''accept-encoding'', ''accept-language'', ''cache-control'', ''content-type'',
      ''if-match'', ''if-modified-since'', ''if-none-match'', ''if-unmodified-since'', ''range'']"

definition hopByHopHeaders :: "string list" where
  "hopByHopHeaders =
     [''connection'', ''keep-alive'', ''proxy-authenticate'', ''proxy-authorization'', ''te'',
      ''trailers'', ''transfer-encoding'', ''upgrade'']"

definition prepareProxyHeaders ::
  "(string \<times> string) list \<Rightarrow> MCPServer \<Rightarrow> (string \<times> string) list" where
  "prepareProxyHeaders originalHeaders server =
     (let headers0 =
            [(''User-Agent'', ''MCP-Hub-Proxy/1.0''), (''Accept'', ''application/json''),
             (''Content-Type'', ''application/json'')];
          headers1 =
            foldl (\<lambda>hs kv. if toLowerCase (fst kv) \<in> set allowedHeaders
                             then obj_set hs (fst kv) (snd kv) else hs)
                  headers0 originalHeaders;
          passed =
            (case obj_truthy originalHeaders ''authorization'' of
               Some v \<Rightarrow> Some v
             | None \<Rightarrow> obj_truthy originalHeaders ''Authorization'');
          headers2 =
            (case auth server of
               None \<Rightarrow> headers1
             | Some a \<Rightarrow>
                 if required a \<and> (auth_kind a = ApiKey \<or> auth_kind a = OAuth) then
                   (case passed of
                      Some v \<Rightarrow> obj_set headers1 ''Authorization'' v
                    | None \<Rightarrow> headers1)
                 else headers1)
      in foldl obj_delete headers2 hopByHopHeaders)"

text \<open>
  \<open>logProxyRequest\<close> never throws: a store that rejects the write leaves no log.
\<close>

definition logProxyRequest :: "'d RequestContext \<Rightarrow> log_entry \<Rightarrow> 'd RequestContext" where
  "logProxyRequest ctx entry =
     (case faults (MCP_CACHE ctx) OpPut of
        None \<Rightarrow> ctx\<lparr>proxy_logs := proxy_logs ctx @ [entry]\<rparr>
      | Some e \<Rightarrow> ctx)"

text \<open>
  The request body as \<open>proxyRequest\<close> reads it: absent or falsy, a string, or another JSON
  value, given by its \<open>JSON.stringify\<close> text.  The empty string is falsy.
\<close>

definition body_truthy :: "body_value \<Rightarrow> bool" where
  "body_truthy b = (case b of NoBody \<Rightarrow> False | StringBody s \<Rightarrow> s \<noteq> [] | JsonBody s \<Rightarrow> True)"

definition body_text :: "body_value \<Rightarrow> string" where
  "body_text b = (case b of NoBody \<Rightarrow> [] | StringBody s \<Rightarrow> s | JsonBody s \<Rightarrow> s)"

definition error_text :: "js_error \<Rightarrow> string \<Rightarrow> string" where
  "error_text e fallback = (case e of JsError nm msg \<Rightarrow> msg | NonError \<Rightarrow> fallback)"

text \<open>
  The inner \<open>try\<close> and \<open>catch\<close> of \<open>proxyRequest\<close>: the forwarded call under the 30 s
  timer, the log entry, and the response or the error thrown on.
\<close>

definition proxy_send ::
  "platform \<Rightarrow> 'd RequestContext \<Rightarrow> string \<Rightarrow> URL \<Rightarrow> string \<Rightarrow> (string \<times> string) list \<Rightarrow>
     string option \<Rightarrow> (js_error + ProxyResponse) \<times> 'd RequestContext" where
  "proxy_send pf ctx sid targetUrl meth proxyHeaders proxyBody =
     (let req = \<lparr>req_url = href targetUrl, req_method = toUpperCase meth,
                 req_headers = proxyHeaders, req_body = proxyBody\<rparr>
      in case do_fetch_with_timeout pf ProxyForward req PROXY_TIMEOUT ctx of
           ((Responded response, elapsed), ctx1) \<Rightarrow>
             (let ctx3 = logProxyRequest ctx1
                    \<lparr>log_serverId = sid, log_targetUrl = href targetUrl,
                     log_method = toUpperCase meth, requestHeaders = proxyHeaders,
                     requestBody = proxyBody, responseStatus = resp_status response,
                     responseHeaders = resp_headers response,
                     responseBody = resp_body response, log_responseTime = elapsed,
                     log_error = None, log_timestamp = now ctx1\<rparr>
              in (Inr \<lparr>success = True, proxy_status = resp_status response,
                       statusText = resp_statusText response, headers = resp_headers response,
                       body = resp_body response, proxy_responseTime = elapsed,
                       proxy_error = None\<rparr>, ctx3))
         | ((Rejected fetchError, elapsed), ctx1) \<Rightarrow>
             (let errorMessage =
                    (case fetchError of
                       JsError nm msg \<Rightarrow> if nm = ''AbortError'' then ''Request timeout'' else msg
                     | NonError \<Rightarrow> ''Request failed'');
                  ctx3 = logProxyRequest ctx1
                    \<lparr>log_serverId = sid, log_targetUrl = href targetUrl,
                     log_method = toUpperCase meth, requestHeaders = proxyHeaders,
                     requestBody = proxyBody, responseStatus = 0, responseHeaders = [],
                     responseBody = [], log_responseTime = elapsed,
                     log_error = Some errorMessage, log_timestamp = now ctx1\<rparr>
              in (Inl (JsError ''Error'' errorMessage), ctx3)))"

text \<open>The outer \<open>try\<close> block of \<open>proxyRequest\<close>: each \<open>throw\<close> is an \<open>Inl\<close>.\<close>

definition proxyRequest_try ::
  "platform \<Rightarrow> Registry RequestContext \<Rightarrow> string \<Rightarrow> string \<Rightarrow> string \<Rightarrow>
     (string \<times> string) list \<Rightarrow> body_value \<Rightarrow>
     (js_error + ProxyResponse) \<times> Registry RequestContext" where
  "proxyRequest_try pf ctx sid targetPath meth hdrs payload =
     (if toUpperCase meth \<notin> set ALLOWED_METHODS then
        (Inl (JsError ''Error'' (''Method '' @ meth @ '' not allowed'')), ctx)
      else
        (case getServer pf ctx sid of
           (None, ctx1) \<Rightarrow> (Inl (JsError ''Error'' (''Server '' @ sid @ '' not found'')), ctx1)
         | (Some server, ctx1) \<Rightarrow>
             if healthStatus server = Offline then
               (Inl (JsError ''Error'' (''Server '' @ sid @ '' is currently offline'')), ctx1)
             else
               (case checkRateLimit ctx1 of
                  (rateLimitResult, ctx2) \<Rightarrow>
                    if \<not> allowed rateLimitResult then
                      (Inl (JsError ''Error'' ''Rate limit exceeded''), ctx2)
                    else
                      (case new_URL pf targetPath (Some (url server)) of
                         None \<Rightarrow> (Inl (JsError ''TypeError'' ''Invalid URL''), ctx2)
                       | Some targetUrl \<Rightarrow>
                           (case new_URL pf (url server) None of
                              None \<Rightarrow> (Inl (JsError ''TypeError'' ''Invalid URL''), ctx2)
                            | Some serverUrl \<Rightarrow>
                                if origin targetUrl \<noteq> origin serverUrl then
                                  (Inl (JsError ''Error''
                                     (''Target URL must be within the server'' @ [CHR 0x27] @
                                      ''s domain'')), ctx2)
                                else
                                  (let proxyHeaders = prepareProxyHeaders hdrs server;
                                       proxyBody =
                                         (if body_truthy payload \<and>
                                             toUpperCase meth \<in> set [''POST'', ''PUT'', ''PATCH'']
                                          then Some (body_text payload) else None)
                                   in if (case proxyBody of
                                            None \<Rightarrow> False
                                          | Some b \<Rightarrow> length b > MAX_BODY_SIZE) then
                                        (Inl (JsError ''Error'' ''Request body too large''), ctx2)
                                      else proxy_send pf ctx2 sid targetUrl meth proxyHeaders
                                             proxyBody))))))"

text \<open>\<open>proxyRequest\<close>: the outer \<open>catch\<close> block turns every throw into a response.\<close>

definition proxyRequest ::
  "platform \<Rightarrow> Registry RequestContext \<Rightarrow> string \<Rightarrow> string \<Rightarrow> string \<Rightarrow>
     (string \<times> string) list \<Rightarrow> body_value \<Rightarrow> ProxyResponse \<times> Registry RequestContext" where
  "proxyRequest pf ctx sid targetPath meth hdrs payload =
     (case proxyRequest_try pf ctx sid targetPath meth hdrs payload of
        (Inr response, ctx') \<Rightarrow> (response, ctx')
      | (Inl e, ctx') \<Rightarrow>
          (\<lparr>success = False, proxy_status = 500, statusText = ''Internal Server Error'',
            headers = [], body = [], proxy_responseTime = 0,
            proxy_error = Some (error_text e ''Unknown error'')\<rparr>, ctx'))"

text \<open>
  \<open>proxy_failure msg\<close> is the response that the outer \<open>catch\<close> block builds for an error
  whose message is \<open>msg\<close>.
\<close>

definition proxy_failure :: "string \<Rightarrow> ProxyResponse" where
  "proxy_failure msg =
     \<lparr>success = False, proxy_status = 500, statusText = ''Internal Server Error'',
      headers = [], body = [], proxy_responseTime = 0, proxy_error = Some msg\<rparr>"

section \<open>router.ts: the servers and proxy endpoints\<close>

text \<open>
  A response is its status, its headers and its body: the JSON envelope
  \<open>{success, data | error, timestamp}\<close> of \<open>createSuccessResponse\<close> and
  \<open>createErrorResponse\<close>, or the text handed to \<open>new Response\<close>.  A number that may be
  \<open>NaN\<close> is an \<open>int option\<close>, \<open>None\<close> for \<open>NaN\<close>.
\<close>

record pagination =
  total :: nat
  page_limit :: "int option"
  page_offset :: "int option"
  hasMore :: bool

datatype payload =
    ServerList "MCPServer list" pagination
  | ServerDetail MCPServer
  | ServerSchema string "string list" string

datatype response_body =
    Envelope (env_success: bool) (env_data: "payload option") (env_error: "string option")
      (env_timestamp: int)
  | RawBody string

record Response =
  response_status :: int
  response_headers :: "(string \<times> string) list"
  response_body :: response_body

definition spread :: "(string \<times> string) list \<Rightarrow> (string \<times> string) list \<Rightarrow> (string \<times> string) list" where
  "spread obj extra = foldl (\<lambda>acc kv. obj_set acc (fst kv) (snd kv)) obj extra"

definition createSuccessResponse :: "payload \<Rightarrow> (string \<times> string) list \<Rightarrow> int \<Rightarrow> Response" where
  "createSuccessResponse d additionalHeaders t =
     \<lparr>response_status = 200,
      response_headers = spread [(''Content-Type'', ''application/json'')] additionalHeaders,
      response_body = Envelope True (Some d) None t\<rparr>"

definition createErrorResponse ::
  "string \<Rightarrow> int \<Rightarrow> (string \<times> string) list \<Rightarrow> int \<Rightarrow> Response" where
  "createErrorResponse err st additionalHeaders t =
     \<lparr>response_status = st,
      response_headers = spread [(''Content-Type'', ''application/json'')] additionalHeaders,
      response_body = Envelope False None (Some err) t\<rparr>"

text \<open>
  \<open>URLSearchParams.get\<close> (the first value of the name), \<open>String.split\<close> on one character,
  and \<open>parseInt\<close> without a radix: leading white space, a sign, \<open>0x\<close> for base 16, then
  the longest run of digits; \<open>NaN\<close> when that run is empty.
\<close>

definition params_get :: "(string \<times> string) list \<Rightarrow> string \<Rightarrow> string option" where
  "params_get ps k = map_of ps k"

fun split_on :: "char \<Rightarrow> string \<Rightarrow> string list" where
  "split_on sep [] = [[]]"
| "split_on sep (c # cs) =
     (if c = sep then [] # split_on sep cs
      else (case split_on sep cs of
              [] \<Rightarrow> [[c]]
            | w # ws \<Rightarrow> (c # w) # ws))"

definition digit_value :: "nat \<Rightarrow> char \<Rightarrow> nat option" where
  "digit_value radix c =
     (case map_of (zip ''0123456789abcdefABCDEF''
                       [0, 1, 2, 3, 4, 5, 6, 7, 8, 9, 10, 11, 12, 13, 14, 15, 10, 11, 12, 13, 14, 15]) c of
        None \<Rightarrow> None
      | Some v \<Rightarrow> if v < radix then Some v else None)"

definition is_space :: "char \<Rightarrow> bool" where
  "is_space c = (c \<in> set [CHR '' '', CHR 0x09, CHR 0x0A, CHR 0x0B, CHR 0x0C, CHR 0x0D])"

definition parseInt :: "string \<Rightarrow> int option" where
  "parseInt s =
     (let s1 = dropWhile is_space s;
          negative = (case s1 of c # cs \<Rightarrow> c = CHR ''-'' | [] \<Rightarrow> False);
          s2 = (case s1 of c # cs \<Rightarrow> if c = CHR ''-'' \<or> c = CHR ''+'' then cs else s1 | [] \<Rightarrow> s1);
          hex = (startsWith s2 ''0x'' \<or> startsWith s2 ''0X'');
          radix = (if hex then 16 else 10);
          s3 = (if hex then drop 2 s2 else s2);
          ds = takeWhile (\<lambda>c. digit_value radix c \<noteq> None) s3;
          n = foldl (\<lambda>acc c. acc * radix + (case digit_value radix c of Some v \<Rightarrow> v | None \<Rightarrow> 0)) 0 ds
      in if ds = [] then None else Some (if negative then - int n else int n))"

text \<open>
  Arithmetic and \<open>Array.slice\<close> on numbers that may be \<open>NaN\<close>: a sum with \<open>NaN\<close> is \<open>NaN\<close>,
  a comparison with \<open>NaN\<close> is false, and \<open>slice\<close> reads \<open>NaN\<close> as 0, counts a negative index
  from the end and clamps both indices to the array.
\<close>

definition js_add :: "int option \<Rightarrow> int option \<Rightarrow> int option" where
  "js_add a b = (case (a, b) of (Some x, Some y) \<Rightarrow> Some (x + y) | _ \<Rightarrow> None)"

definition js_less :: "int option \<Rightarrow> int \<Rightarrow> bool" where
  "js_less a n = (case a of Some x \<Rightarrow> x < n | None \<Rightarrow> False)"

definition slice_index :: "int \<Rightarrow> int option \<Rightarrow> int" where
  "slice_index len k =
     (case k of None \<Rightarrow> 0 | Some i \<Rightarrow> if i < 0 then max (len + i) 0 else min i len)"

definition js_slice :: "'a list \<Rightarrow> int option \<Rightarrow> int option \<Rightarrow> 'a list" where
  "js_slice xs a b =
     (let len = int (length xs); lo = slice_index len a; hi = slice_index len b
      in take (nat (hi - lo)) (drop (nat lo) xs))"

definition or_default :: "string option \<Rightarrow> string \<Rightarrow> string" where
  "or_default v dflt = (case v of None \<Rightarrow> dflt | Some s \<Rightarrow> if s = [] then dflt else s)"

text \<open>
  The list branch of \<open>handleServersEndpoint\<close> (\<open>GET /api/servers\<close>): the three filters of
  the endpoint, then the page.
\<close>

definition list_servers ::
  "platform \<Rightarrow> Registry RequestContext \<Rightarrow> payload \<times> Registry RequestContext" where
  "list_servers pf ctx =
     (let query = or_default (params_get (searchParams ctx) ''q'') [];
          wanted = (case params_get (searchParams ctx) ''tags'' of
                      None \<Rightarrow> []
                    | Some s \<Rightarrow> split_on CHR '','' s);
          verif = (params_get (searchParams ctx) ''verified'' = Some ''true'');
          lim = parseInt (or_default (params_get (searchParams ctx) ''limit'') ''20'');
          off = parseInt (or_default (params_get (searchParams ctx) ''offset'') ''0'')
      in case getRegistry pf ctx of
           (registry, ctx') \<Rightarrow>
             (let servers0 = servers registry;
                  servers1 = (if query \<noteq> [] then filter (matches_query (toLowerCase query)) servers0
                              else servers0);
                  servers2 = (if length wanted > 0 then filter (has_some_tag wanted) servers1
                              else servers1);
                  servers3 = (if verif then filter verified servers2 else servers2);
                  matched = length servers3
              in (ServerList (js_slice servers3 off (js_add off lim))
                    \<lparr>total = matched, page_limit = lim, page_offset = off,
                     hasMore = js_less (js_add off lim) (int matched)\<rparr>,
                  ctx')))"

definition handleServersEndpoint ::
  "platform \<Rightarrow> Registry RequestContext \<Rightarrow> string list \<Rightarrow> string \<Rightarrow> (string \<times> string) list \<Rightarrow>
     Response \<times> Registry RequestContext" where
  "handleServersEndpoint pf ctx pathParts meth rateLimitHeaders =
     (if meth \<noteq> ''GET'' then
        (createErrorResponse ''Method not allowed'' 405 rateLimitHeaders (now ctx), ctx)
      else if length pathParts = 1 then
        (case list_servers pf ctx of
           (page, ctx') \<Rightarrow> (createSuccessResponse page rateLimitHeaders (now ctx'), ctx'))
      else if length pathParts = 2 then
        (case getServer pf ctx (pathParts ! 1) of
           (None, ctx') \<Rightarrow>
             (createErrorResponse ''Server not found'' 404 rateLimitHeaders (now ctx'), ctx')
         | (Some server, ctx') \<Rightarrow>
             (createSuccessResponse (ServerDetail server) rateLimitHeaders (now ctx'), ctx'))
      else if length pathParts = 3 \<and> pathParts ! 2 = ''schema'' then
        (case getServer pf ctx (pathParts ! 1) of
           (None, ctx') \<Rightarrow>
             (createErrorResponse ''Server not found'' 404 rateLimitHeaders (now ctx'), ctx')
         | (Some server, ctx') \<Rightarrow>
             (createSuccessResponse
                (ServerSchema (pathParts ! 1) (or_empty (capabilities server)) (server_version server))
                rateLimitHeaders (now ctx'), ctx'))
      else (createErrorResponse ''Invalid servers endpoint'' 400 rateLimitHeaders (now ctx), ctx))"

text \<open>
  \<open>new Response(body, init)\<close> throws a \<open>RangeError\<close> for a status outside 200..599 and a
  \<open>TypeError\<close> for a body given with a status that allows none.
\<close>

definition new_Response ::
  "string \<Rightarrow> int \<Rightarrow> (string \<times> string) list \<Rightarrow> js_error + Response" where
  "new_Response txt st hdrs =
     (if st < 200 \<or> st > 599 then Inl (JsError ''RangeError'' ''Invalid status'')
      else if st \<in> set [204, 205, 304] then
        Inl (JsError ''TypeError'' ''Response with null body status cannot have body'')
      else Inr \<lparr>response_status = st, response_headers = hdrs, response_body = RawBody txt\<rparr>)"

definition falsy :: "string option \<Rightarrow> bool" where
  "falsy v = (case v of None \<Rightarrow> True | Some s \<Rightarrow> s = [])"

text \<open>
  \<open>handleProxyEndpoint\<close>.  \<open>request_json\<close> is \<open>None\<close> when the body of the request is not a
  JSON object, which throws inside the \<open>try\<close> block.
\<close>

definition handleProxyEndpoint_try ::
  "platform \<Rightarrow> Registry RequestContext \<Rightarrow> (string \<times> string) list \<Rightarrow>
     (js_error + Response) \<times> Registry RequestContext" where
  "handleProxyEndpoint_try pf ctx rateLimitHeaders =
     (case request_json ctx of
        None \<Rightarrow> (Inl (JsError ''SyntaxError'' ''Unexpected end of JSON input''), ctx)
      | Some parsed \<Rightarrow>
          if falsy (pr_serverId parsed) \<or> falsy (pr_path parsed) \<or>
             falsy (pr_method parsed) then
            (Inr (createErrorResponse ''Missing required fields: serverId, path, method'' 400
                    rateLimitHeaders (now ctx)), ctx)
          else
            (let sid = or_default (pr_serverId parsed) [];
                 targetPath = or_default (pr_path parsed) [];
                 targetMethod = or_default (pr_method parsed) []
             in if toUpperCase targetMethod \<notin>
                     set [''GET'', ''POST'', ''PUT'', ''PATCH'', ''DELETE'', ''HEAD'', ''OPTIONS'']
                then
                  (Inr (createErrorResponse (''Method '' @ targetMethod @ '' not allowed'') 400
                          rateLimitHeaders (now ctx)), ctx)
                else
                  (case proxyRequest pf ctx sid targetPath targetMethod
                          (or_empty (pr_headers parsed)) (pr_body parsed) of
                     (result, ctx') \<Rightarrow>
                       if success result then
                         (new_Response (body result) (proxy_status result)
                            (spread rateLimitHeaders
                               [(''Content-Type'',
                                 or_default (map_of (headers result) ''content-type'')
                                   ''application/json''),
                                (''X-Proxy-Response-Time'', show_int (proxy_responseTime result)),
                                (''X-Proxy-Server-Id'', sid)]),
                          ctx')
                       else
                         (Inr (createErrorResponse
                                 (or_default (proxy_error result) ''Proxy request failed'')
                                 (proxy_status result) rateLimitHeaders (now ctx')), ctx'))))"

definition handleProxyEndpoint ::
  "platform \<Rightarrow> Registry RequestContext \<Rightarrow> string \<Rightarrow> (string \<times> string) list \<Rightarrow>
     Response \<times> Registry RequestContext" where
  "handleProxyEndpoint pf ctx meth rateLimitHeaders =
     (if meth \<noteq> ''POST'' then
        (createErrorResponse ''Method not allowed'' 405 rateLimitHeaders (now ctx), ctx)
      else
        (case handleProxyEndpoint_try pf ctx rateLimitHeaders of
           (Inr response, ctx') \<Rightarrow> (response, ctx')
         | (Inl e, ctx') \<Rightarrow>
             (createErrorResponse ''Failed to proxy request'' 500 rateLimitHeaders (now ctx'), ctx')))"

section \<open>A client calling the limiter again and again\<close>


definition rl_state :: "'d RequestContext \<Rightarrow> string \<Rightarrow> int list \<Rightarrow> bool" where
  "rl_state ctx client reqs =
     (case entries (MCP_CACHE ctx) (''rate_limit:'' @ client) of
        None \<Rightarrow> reqs = []
      | Some (v, expires) \<Rightarrow>
          (case v of
             VRateLimit stored ws \<Rightarrow> stored = reqs \<and> reqs \<noteq> [] \<and> expires = last reqs + 120000
           | _ \<Rightarrow> False))"

section \<open>Concrete inputs\<close>

definition probe_server :: MCPServer where
  "probe_server = \<lparr>server_id = ''example-mcp'', server_name = ''Example MCP Server'',
     server_description = ''A sample MCP server for demonstration purposes'',
     url = ''https://example.com/mcp'', server_version = ''1.0.0'', tags = [''example'', ''demo''],
     server_author = \<lparr>author_name = ''MCP Hub Team'', author_url = None, github = Some ''mcp-hub''\<rparr>,
     verified = True, healthStatus = Unknown, lastChecked = 0,
     capabilities = Some [''query'', ''chat'', ''tools''],
     auth = Some \<lparr>auth_kind = AuthNone, required = False\<rparr>, createdAt = 0, updatedAt = 0\<rparr>"

definition ok200 :: http_response where
  "ok200 = \<lparr>resp_status = 200, resp_statusText = ''OK'', resp_headers = [], resp_body = ''''\<rparr>"

definition healthy_store :: "'d KVNamespace" where
  "healthy_store = \<lparr>entries = (\<lambda>k. None), faults = (\<lambda>op. None)\<rparr>"

definition base_ctx :: "'d RequestContext" where
  "base_ctx = \<lparr>MCP_CACHE = healthy_store, ip = Some ''203.0.113.7'', now = 1000000, calls = [],
     proxy_logs = [], searchParams = [], request_json = None\<rparr>"

definition store_error :: js_error where
  "store_error = JsError ''Error'' ''KV unavailable''"

definition admitted :: "int \<Rightarrow> RateLimitResult" where
  "admitted t = \<lparr>allowed = True, limit = 100, remaining = 99, reset = t + 60000\<rparr>"


definition sample_doc :: registry_doc where
  "sample_doc = \<lparr>doc_version = Some ''1.0.0'', doc_lastUpdated = 900000,
     doc_servers = ServersArray [probe_server],
     doc_stats = \<lparr>totalServers = 1, onlineServers = 0, totalRequests = 0\<rparr>\<rparr>"

definition down_platform :: platform where
  "down_platform =
     \<lparr>fetch = (\<lambda>req. (Rejected (JsError ''TypeError'' ''fetch failed''), 30)),
      parse_json = (\<lambda>s. None), new_URL = (\<lambda>s b. None)\<rparr>"

definition answering_platform :: "int \<Rightarrow> json_top option \<Rightarrow> platform" where
  "answering_platform st parsed =
     \<lparr>fetch = (\<lambda>req. (Responded (ok200\<lparr>resp_status := st\<rparr>), 30)),
      parse_json = (\<lambda>s. parsed), new_URL = (\<lambda>s b. None)\<rparr>"

definition fleet :: "MCPServer list" where
  "fleet = map (\<lambda>k. probe_server\<lparr>server_id := show_nat k\<rparr>) [0..<25]"

definition fleet_platform :: platform where
  "fleet_platform =
     answering_platform 200 (Some (JsonObject (sample_doc\<lparr>doc_servers := ServersArray fleet\<rparr>)))"

definition flaky_probe :: probe where
  "flaky_probe t server =
     (if server_id server = ''7'' then (Inl (JsError ''Error'' ''probe crashed''), 5)
      else health_probe (fetch fleet_platform) t server)"

definition mk_tool :: "string \<Rightarrow> string \<Rightarrow> ToolDefinition" where
  "mk_tool nm ns = \<lparr>name = nm, description = ''a tool'', namespace = Some ns,
     inputSchema = None, outputSchema = None\<rparr>"

definition mk_resource :: "string \<Rightarrow> string \<Rightarrow> ResourceDefinition" where
  "mk_resource nm ns = \<lparr>name = nm, description = ''a resource'', namespace = Some ns,
     uri = ''file:///docs'', mimeType = None\<rparr>"

definition mk_prompt :: "string \<Rightarrow> string \<Rightarrow> PromptDefinition" where
  "mk_prompt nm ns = \<lparr>name = nm, description = ''a prompt'', namespace = Some ns,
     arguments = Some []\<rparr>"

definition two_schemas :: "MCPSchema list" where
  "two_schemas =
     [\<lparr>schema_serverId = ''alpha'', schema_serverName = ''Alpha'', schema_version = ''1.0.0'',
       schema_namespace = Some ''alpha'',
       schema_tools = Some [mk_tool ''search'' ''alpha'', mk_tool ''fetch'' ''alpha''],
       schema_resources = Some [mk_resource ''docs'' ''alpha''],
       schema_prompts = None,
       schema_capabilities = Some [''tools''], lastFetched = 0\<rparr>,
      \<lparr>schema_serverId = ''beta'', schema_serverName = ''Beta'', schema_version = ''1.0.0'',
       schema_namespace = Some ''beta'',
       schema_tools = Some [mk_tool ''search'' ''beta''],
       schema_resources = Some [mk_resource ''docs'' ''beta''],
       schema_prompts = Some [mk_prompt ''summarize'' ''beta''],
       schema_capabilities = Some [''tools'', ''prompts''], lastFetched = 0\<rparr>]"

definition known_client_store :: "'d KVNamespace" where
  "known_client_store =
     \<lparr>entries = (\<lambda>k. None)(''rate_limit:203.0.113.7'' \<mapsto> (VRateLimit [990000, 995000] 995000, 1115000)),
      faults = (\<lambda>op. None)\<rparr>"

text \<open>
  The \<open>URL\<close> constructor on the inputs of the examples: an absolute \<open>https\<close> URL, and,
  read against an absolute \<open>https\<close> base, a scheme-relative reference (\<open>//host/path\<close>) and
  a path starting with \<open>/\<close>.  A registry whose one server is \<open>server\<close>, served by a network
  that answers every other request with \<open>upstream\<close>; and a store in which the client of
  \<open>base_ctx\<close> has used up its window.
\<close>

definition https_origin :: "string \<Rightarrow> string" where
  "https_origin s = ''https://'' @ takeWhile (\<lambda>c. c \<noteq> CHR ''/'') (drop 8 s)"

definition https_URL :: "string \<Rightarrow> string option \<Rightarrow> URL option" where
  "https_URL input base =
     (if startsWith input ''https://'' then Some \<lparr>origin = https_origin input, href = input\<rparr>
      else case base of
             None \<Rightarrow> None
           | Some b \<Rightarrow>
               if \<not> startsWith b ''https://'' then None
               else if startsWith input ''//'' then
                 Some \<lparr>origin = https_origin (''https:'' @ input), href = ''https:'' @ input\<rparr>
               else if startsWith input ''/'' then
                 Some \<lparr>origin = https_origin b, href = https_origin b @ input\<rparr>
               else None)"

definition pong :: http_response where
  "pong = \<lparr>resp_status = 200, resp_statusText = ''OK'',
     resp_headers = [(''content-type'', ''text/plain'')], resp_body = ''pong''\<rparr>"

definition proxy_platform :: "MCPServer \<Rightarrow> fetch_result \<times> int \<Rightarrow> platform" where
  "proxy_platform server upstream =
     \<lparr>fetch = (\<lambda>req. if req_url req = GITHUB_REGISTRY_URL then (Responded ok200, 30) else upstream),
      parse_json = (\<lambda>s. Some (JsonObject (sample_doc\<lparr>doc_servers := ServersArray [server]\<rparr>))),
      new_URL = https_URL\<rparr>"

definition full_store :: "'d KVNamespace" where
  "full_store =
     \<lparr>entries = (\<lambda>k. None)(''rate_limit:203.0.113.7'' \<mapsto>
                  (VRateLimit (replicate 100 999000) 999000, 1119000)),
      faults = (\<lambda>op. None)\<rparr>"

definition proxy_call :: "string \<Rightarrow> string \<Rightarrow> string \<Rightarrow> ProxyRequest" where
  "proxy_call sid path meth =
     \<lparr>pr_serverId = Some sid, pr_path = Some path, pr_method = Some meth, pr_headers = None,
      pr_body = NoBody\<rparr>"


section \<open>Health probe classification\<close>

text \<open>
  Claim C3, as amended.  A probe whose answer arrives within the 30 s limit is classified
  by the answer: a 2xx response is online when it took at most 10 s and degraded when it
  took longer, a response with status 500 or more is degraded, every other response is
  offline.  A probe the 30 s timer cancels is degraded with error \<open>Request timeout\<close>, and so
  is every rejection whose error is named \<open>AbortError\<close> or whose message contains
  \<open>timeout\<close>.  Every other rejection is offline; its error text is \<open>Network error\<close> when
  the message contains \<open>fetch\<close> or \<open>network\<close>, the error's own message otherwise, and
  \<open>Unknown error\<close> when the thrown value is not an \<open>Error\<close>.
\<close>

theorem checkServerHealth_classification:
  assumes "net (health_request server) = (res, d)"
  shows "(d \<le> 30000 \<and> res = Responded r \<and> resp_ok r \<and> d \<le> 10000 \<longrightarrow>
            status (checkServerHealth net t0 server) = CheckOnline \<and>
            error (checkServerHealth net t0 server) = None)
       \<and> (d \<le> 30000 \<and> res = Responded r \<and> resp_ok r \<and> d > 10000 \<longrightarrow>
            status (checkServerHealth net t0 server) = CheckDegraded)
       \<and> (d \<le> 30000 \<and> res = Responded r \<and> \<not> resp_ok r \<and> resp_status r \<ge> 500 \<longrightarrow>
            status (checkServerHealth net t0 server) = CheckDegraded)
       \<and> (d \<le> 30000 \<and> res = Responded r \<and> \<not> resp_ok r \<and> resp_status r < 500 \<longrightarrow>
            status (checkServerHealth net t0 server) = CheckOffline)
       \<and> (d > 30000 \<longrightarrow>
            status (checkServerHealth net t0 server) = CheckDegraded \<and>
            error (checkServerHealth net t0 server) = Some ''Request timeout'')
       \<and> (d \<le> 30000 \<and> res = Rejected (JsError nm msg) \<and>
            (nm = ''AbortError'' \<or> str_includes msg ''timeout'') \<longrightarrow>
            status (checkServerHealth net t0 server) = CheckDegraded \<and>
            error (checkServerHealth net t0 server) = Some ''Request timeout'')
       \<and> (d \<le> 30000 \<and> res = Rejected (JsError nm msg) \<and>
            nm \<noteq> ''AbortError'' \<and> \<not> str_includes msg ''timeout'' \<longrightarrow>
            status (checkServerHealth net t0 server) = CheckOffline \<and>
            error (checkServerHealth net t0 server) =
              Some (if str_includes msg ''fetch'' \<or> str_includes msg ''network''
                    then ''Network error'' else msg))
       \<and> (d \<le> 30000 \<and> res = Rejected NonError \<longrightarrow>
            status (checkServerHealth net t0 server) = CheckOffline \<and>
            error (checkServerHealth net t0 server) = Some ''Unknown error'')"
  using assms
  by (simp add: checkServerHealth_def fetch_with_timeout_def HEALTH_CHECK_TIMEOUT_def abortError_def)

theorem checkServerHealth_classification_witness:
  "status (checkServerHealth (\<lambda>q. (Responded ok200, 120)) 0 probe_server) = CheckOnline
   \<and> status (checkServerHealth (\<lambda>q. (Responded ok200, 12000)) 0 probe_server) = CheckDegraded
   \<and> status (checkServerHealth (\<lambda>q. (Responded (ok200\<lparr>resp_status := 503\<rparr>), 120)) 0 probe_server) = CheckDegraded
   \<and> status (checkServerHealth (\<lambda>q. (Responded (ok200\<lparr>resp_status := 404\<rparr>), 120)) 0 probe_server) = CheckOffline
   \<and> error (checkServerHealth (\<lambda>q. (Responded ok200, 31000)) 0 probe_server) = Some ''Request timeout''
   \<and> status (checkServerHealth (\<lambda>q. (Rejected (JsError ''TypeError'' ''connect timeout''), 2000)) 0 probe_server) = CheckDegraded
   \<and> error (checkServerHealth (\<lambda>q. (Rejected (JsError ''TypeError'' ''fetch failed''), 50)) 0 probe_server) = Some ''Network error''
   \<and> error (checkServerHealth (\<lambda>q. (Rejected (JsError ''Error'' ''connection refused''), 50)) 0 probe_server) = Some ''connection refused''
   \<and> error (checkServerHealth (\<lambda>q. (Rejected NonError, 50)) 0 probe_server) = Some ''Unknown error''"
  using checkServerHealth_classification [of "\<lambda>q. (Responded ok200, 120)" probe_server "Responded ok200" 120 ok200 0]
    checkServerHealth_classification [of "\<lambda>q. (Responded ok200, 12000)" probe_server "Responded ok200" 12000 ok200 0]
    checkServerHealth_classification [of "\<lambda>q. (Responded (ok200\<lparr>resp_status := 503\<rparr>), 120)" probe_server "Responded (ok200\<lparr>resp_status := 503\<rparr>)" 120 "ok200\<lparr>resp_status := 503\<rparr>" 0]
    checkServerHealth_classification [of "\<lambda>q. (Responded (ok200\<lparr>resp_status := 404\<rparr>), 120)" probe_server "Responded (ok200\<lparr>resp_status := 404\<rparr>)" 120 "ok200\<lparr>resp_status := 404\<rparr>" 0]
    checkServerHealth_classification [of "\<lambda>q. (Responded ok200, 31000)" probe_server "Responded ok200" 31000 ok200 0]
    checkServerHealth_classification [of "\<lambda>q. (Rejected (JsError ''TypeError'' ''connect timeout''), 2000)" probe_server "Rejected (JsError ''TypeError'' ''connect timeout'')" 2000 ok200 0 "''TypeError''" "''connect timeout''"]
    checkServerHealth_classification [of "\<lambda>q. (Rejected (JsError ''TypeError'' ''fetch failed''), 50)" probe_server "Rejected (JsError ''TypeError'' ''fetch failed'')" 50 ok200 0 "''TypeError''" "''fetch failed''"]
    checkServerHealth_classification [of "\<lambda>q. (Rejected (JsError ''Error'' ''connection refused''), 50)" probe_server "Rejected (JsError ''Error'' ''connection refused'')" 50 ok200 0 "''Error''" "''connection refused''"]
    checkServerHealth_classification [of "\<lambda>q. (Rejected NonError, 50)" probe_server "Rejected NonError" 50 ok200 0]
  by (simp add: resp_ok_def ok200_def)

text \<open>
  Claim C3 as stated says that every transport failure other than the 30 s cancellation is
  offline with reason \<open>network error\<close>.  A connect timeout reported by the network after
  2 s is degraded, and a refused connection is reported with its own message.
\<close>

theorem checkServerHealth_other_failure_counterexample:
  "status (checkServerHealth (\<lambda>q. (Rejected (JsError ''TypeError'' ''connect timeout''), 2000)) 0 probe_server) = CheckDegraded
   \<and> error (checkServerHealth (\<lambda>q. (Rejected (JsError ''Error'' ''connection refused''), 50)) 0 probe_server) = Some ''connection refused''"
  by (simp add: checkServerHealth_def fetch_with_timeout_def HEALTH_CHECK_TIMEOUT_def)

section \<open>Cache entries expire by their own ttl\<close>

text \<open>
  Claim C7.  On a store that answers, \<open>setCachedData\<close> at \<open>t0\<close> succeeds, and a
  \<open>getCachedData\<close> of the key at \<open>t1\<close> returns the value while \<open>t1\<close> is within \<open>ttl\<close> seconds
  of \<open>t0\<close>.  Past that it returns a miss and the store no longer has the key; in the 60
  seconds during which the store itself would still return the entry, the entry is deleted.
  The store never drops an entry whose \<open>ttl\<close> has not run out.
\<close>

theorem cache_logical_expiry:
  assumes "faults (MCP_CACHE ctx) = (\<lambda>op. None)"
    and "setCachedData (ctx\<lparr>now := t0\<rparr>) k v ttl = (stored, ctx1)"
  shows "stored
       \<and> (t1 \<le> t0 + ttl * 1000 \<longrightarrow>
            getCachedData (ctx1\<lparr>now := t1\<rparr>) k = (Some v, ctx1\<lparr>now := t1\<rparr>))
       \<and> (t0 + ttl * 1000 < t1 \<longrightarrow>
            fst (getCachedData (ctx1\<lparr>now := t1\<rparr>) k) = None \<and>
            kv_get (MCP_CACHE (snd (getCachedData (ctx1\<lparr>now := t1\<rparr>) k))) k t1 = Inr None)
       \<and> (t0 + ttl * 1000 < t1 \<and> t1 < t0 + (ttl + 60) * 1000 \<longrightarrow>
            kv_get (MCP_CACHE ctx1) k t1 = Inr (Some (VCacheEntry v t0 ttl)) \<and>
            entries (MCP_CACHE (snd (getCachedData (ctx1\<lparr>now := t1\<rparr>) k))) k = None)
       \<and> (kv_get (MCP_CACHE ctx1) k t1 = Inr None \<longrightarrow> t0 + ttl * 1000 < t1)"
  using assms
  by (auto simp add: setCachedData_def getCachedData_def kv_get_def kv_put_def kv_delete_def
      split: if_splits)

theorem cache_logical_expiry_witness:
  "fst (getCachedData ((snd (setCachedData (base_ctx\<lparr>now := 0\<rparr>) ''k'' (42::nat) 5))\<lparr>now := 4000\<rparr>) ''k'') = Some 42
   \<and> fst (getCachedData ((snd (setCachedData (base_ctx\<lparr>now := 0\<rparr>) ''k'' (42::nat) 5))\<lparr>now := 6000\<rparr>) ''k'') = None
   \<and> kv_get (MCP_CACHE (snd (setCachedData (base_ctx\<lparr>now := 0\<rparr>) ''k'' (42::nat) 5))) ''k'' 6000 = Inr (Some (VCacheEntry 42 0 5))
   \<and> entries (MCP_CACHE (snd (getCachedData ((snd (setCachedData (base_ctx\<lparr>now := 0\<rparr>) ''k'' (42::nat) 5))\<lparr>now := 6000\<rparr>) ''k''))) ''k'' = None"
  using cache_logical_expiry [of "base_ctx :: nat RequestContext" 0 "''k''" 42 5 True
      "snd (setCachedData (base_ctx\<lparr>now := 0\<rparr>) ''k'' (42::nat) 5)" 4000]
    cache_logical_expiry [of "base_ctx :: nat RequestContext" 0 "''k''" 42 5 True
      "snd (setCachedData (base_ctx\<lparr>now := 0\<rparr>) ''k'' (42::nat) 5)" 6000]
  by (simp add: base_ctx_def healthy_store_def setCachedData_def kv_put_def)

section \<open>The rate limiter\<close>

text \<open>
  Claim C9.  For a client with an address, every check in which the store raises admits
  the request and leaves the context as it was: when the \<open>try\<close> block throws at all,
  when the read rejects, and when the write rejects, be it for a client with no entry or
  for one whose entry holds fewer than 100 requests of the window (the two cases in which
  a write is made).  Conversely a check rejects only after a read that succeeded and
  returned 100 or more requests of the window, and then it writes nothing: no fault of the
  store leads to a rejection.
\<close>

theorem checkRateLimit_fails_open:
  assumes "ip ctx = Some client" and "client \<noteq> []"
  shows "(checkRateLimit_try ctx client = Inl e \<longrightarrow>
            checkRateLimit ctx = (admitted (now ctx), ctx))
       \<and> (faults (MCP_CACHE ctx) OpGet = Some e \<longrightarrow>
            checkRateLimit ctx = (admitted (now ctx), ctx))
       \<and> (faults (MCP_CACHE ctx) OpPut = Some e \<and>
            kv_get (MCP_CACHE ctx) (''rate_limit:'' @ client) (now ctx) = Inr None \<longrightarrow>
            checkRateLimit ctx = (admitted (now ctx), ctx))
       \<and> (faults (MCP_CACHE ctx) OpPut = Some e \<and>
            kv_get (MCP_CACHE ctx) (''rate_limit:'' @ client) (now ctx) =
              Inr (Some (VRateLimit reqs ws)) \<and>
            length (filter (\<lambda>ts. now ctx - 60000 < ts) reqs) < 100 \<longrightarrow>
            checkRateLimit ctx = (admitted (now ctx), ctx))
       \<and> (\<not> allowed (fst (checkRateLimit ctx)) \<longrightarrow>
            faults (MCP_CACHE ctx) OpGet = None \<and>
            (\<exists>stored w. kv_get (MCP_CACHE ctx) (''rate_limit:'' @ client) (now ctx) =
                            Inr (Some (VRateLimit stored w)) \<and>
                          100 \<le> length (filter (\<lambda>ts. now ctx - 60000 < ts) stored)) \<and>
            snd (checkRateLimit ctx) = ctx)"
  using assms
  by (auto simp add: checkRateLimit_def checkRateLimit_try_def kv_get_def kv_put_def admitted_def
      RATE_LIMIT_MAX_REQUESTS_def RATE_LIMIT_WINDOW_def Let_def
      split: option.splits kv_value.splits if_splits sum.splits prod.splits)

theorem checkRateLimit_fails_open_witness:
  "allowed (fst (checkRateLimit (base_ctx\<lparr>MCP_CACHE := healthy_store\<lparr>faults := (\<lambda>op. None)(OpGet \<mapsto> store_error)\<rparr>\<rparr> :: unit RequestContext)))
   \<and> allowed (fst (checkRateLimit (base_ctx\<lparr>MCP_CACHE := healthy_store\<lparr>faults := (\<lambda>op. None)(OpPut \<mapsto> store_error)\<rparr>\<rparr> :: unit RequestContext)))
   \<and> allowed (fst (checkRateLimit (base_ctx\<lparr>MCP_CACHE := known_client_store\<lparr>faults := (\<lambda>op. None)(OpPut \<mapsto> store_error)\<rparr>\<rparr> :: unit RequestContext)))"
  using checkRateLimit_fails_open [of "base_ctx\<lparr>MCP_CACHE := healthy_store\<lparr>faults := (\<lambda>op. None)(OpGet \<mapsto> store_error)\<rparr>\<rparr> :: unit RequestContext" "''203.0.113.7''" store_error]
    checkRateLimit_fails_open [of "base_ctx\<lparr>MCP_CACHE := healthy_store\<lparr>faults := (\<lambda>op. None)(OpPut \<mapsto> store_error)\<rparr>\<rparr> :: unit RequestContext" "''203.0.113.7''" store_error]
    checkRateLimit_fails_open [of "base_ctx\<lparr>MCP_CACHE := known_client_store\<lparr>faults := (\<lambda>op. None)(OpPut \<mapsto> store_error)\<rparr>\<rparr> :: unit RequestContext" "''203.0.113.7''" store_error "[990000, 995000]" 995000]
  by (simp add: base_ctx_def healthy_store_def known_client_store_def admitted_def kv_get_def)










lemma take_all_but_last:
  "length ts = Suc n \<Longrightarrow> ts = take n ts @ [ts ! n]"
  by (metis lessI order_refl take_Suc_conv_app_nth take_all)

lemma rl_state_now [simp]: "rl_state (ctx\<lparr>now := t\<rparr>) client reqs = rl_state ctx client reqs"
  by (simp add: rl_state_def)






section \<open>The registry snapshot\<close>

lemma getCachedData_keeps:
  "getCachedData ctx k = (r, ctx1) \<Longrightarrow>
     now ctx1 = now ctx \<and> calls ctx1 = calls ctx \<and> ip ctx1 = ip ctx \<and>
     faults (MCP_CACHE ctx1) = faults (MCP_CACHE ctx) \<and> proxy_logs ctx1 = proxy_logs ctx"
  by (auto simp: getCachedData_def kv_delete_def
      split: sum.splits option.splits kv_value.splits if_splits)

lemma fetch_registry_context:
  assumes "fetch pf registry_request = (res, d)"
  shows "snd (fetchRegistryFromGitHub pf c) =
           c\<lparr>calls := calls c @ [(RegistryFetch, registry_request)], now := now c + d\<rparr>"
  using assms
  by (simp add: fetchRegistryFromGitHub_def do_fetch_def
      split: fetch_result.splits option.splits json_top.splits servers_field.splits)

text \<open>
  What \<open>fetchRegistryFromGitHub\<close> returns, by what the network answered: the registry of
  a valid document, and an error for everything else.
\<close>

lemma fetch_registry_outcome:
  assumes "fetch pf registry_request = (res, d)"
  shows "(res = Rejected e \<longrightarrow> fst (fetchRegistryFromGitHub pf c) = Inl e)"
    and "(res = Responded r \<and> \<not> resp_ok r \<longrightarrow>
           (\<exists>err. fst (fetchRegistryFromGitHub pf c) = Inl err))"
    and "(res = Responded r \<and> resp_ok r \<and> parse_json pf (resp_body r) = None \<longrightarrow>
           (\<exists>err. fst (fetchRegistryFromGitHub pf c) = Inl err))"
    and "(res = Responded r \<and> resp_ok r \<and> parse_json pf (resp_body r) = Some JsonNull \<longrightarrow>
           (\<exists>err. fst (fetchRegistryFromGitHub pf c) = Inl err))"
    and "(res = Responded r \<and> resp_ok r \<and> parse_json pf (resp_body r) = Some JsonScalar \<longrightarrow>
           (\<exists>err. fst (fetchRegistryFromGitHub pf c) = Inl err))"
    and "(res = Responded r \<and> resp_ok r \<and> parse_json pf (resp_body r) = Some (JsonObject doc) \<and>
           (doc_servers doc = ServersFalsy \<or> doc_servers doc = ServersNotArray) \<longrightarrow>
           (\<exists>err. fst (fetchRegistryFromGitHub pf c) = Inl err))"
    and "(res = Responded r \<and> resp_ok r \<and> parse_json pf (resp_body r) = Some (JsonObject doc) \<and>
           (doc_version doc = None \<or> doc_version doc = Some []) \<longrightarrow>
           (\<exists>err. fst (fetchRegistryFromGitHub pf c) = Inl err))"
    and "(res = Responded r \<and> resp_ok r \<and> parse_json pf (resp_body r) = Some (JsonObject doc) \<and>
           doc_version doc = Some v \<and> v \<noteq> [] \<and> doc_servers doc = ServersArray srvs \<longrightarrow>
           fst (fetchRegistryFromGitHub pf c) =
             Inr \<lparr>registry_version = v, lastUpdated = doc_lastUpdated doc, servers = srvs,
                  stats = doc_stats doc\<rparr>)"
  using assms
  by (simp_all add: fetchRegistryFromGitHub_def do_fetch_def
      split: option.splits servers_field.splits)

lemma fetch_registry_valid:
  assumes "fetch pf registry_request = (res, d)"
    and "fst (fetchRegistryFromGitHub pf c) = Inr reg"
  shows "\<exists>r doc v srvs.
           res = Responded r \<and> resp_ok r \<and> parse_json pf (resp_body r) = Some (JsonObject doc) \<and>
           doc_version doc = Some v \<and> v \<noteq> [] \<and> doc_servers doc = ServersArray srvs \<and>
           reg = \<lparr>registry_version = v, lastUpdated = doc_lastUpdated doc, servers = srvs,
                  stats = doc_stats doc\<rparr>"
proof (cases res)
  case (Rejected e)
  then show ?thesis using assms by (simp add: fetchRegistryFromGitHub_def do_fetch_def)
next
  case (Responded r)
  show ?thesis
  proof (cases "resp_ok r")
    case False
    then show ?thesis using assms Responded
      by (simp add: fetchRegistryFromGitHub_def do_fetch_def)
  next
    case True
    show ?thesis
    proof (cases "parse_json pf (resp_body r)")
      case None
      then show ?thesis using assms Responded True
        by (simp add: fetchRegistryFromGitHub_def do_fetch_def)
    next
      case (Some top)
      show ?thesis
      proof (cases top)
        case JsonNull
        then show ?thesis using assms Responded True Some
          by (simp add: fetchRegistryFromGitHub_def do_fetch_def)
      next
        case JsonScalar
        then show ?thesis using assms Responded True Some
          by (simp add: fetchRegistryFromGitHub_def do_fetch_def)
      next
        case (JsonObject doc)
        then show ?thesis using assms Responded True Some
          by (cases "doc_version doc"; cases "doc_servers doc")
             (auto simp: fetchRegistryFromGitHub_def do_fetch_def split: if_splits)
      qed
    qed
  qed
qed

text \<open>
  Claim C8.  \<open>getRegistry\<close> is a total function: the \<open>catch\<close> block answers every throw
  of the \<open>try\<close> block with the fallback registry, which has exactly one server.  When the
  cache misses and the fetch has taken \<open>d\<close> ms, the fallback registry (stamped with the
  clock after the fetch) is returned if the fetch rejects, if the response is not 2xx, if
  its body is not JSON, is \<open>null\<close> or is not an object, if \<open>servers\<close> is missing or not an
  array, and if \<open>version\<close> is missing or empty.  Anything but the fallback is returned only
  for a 2xx response whose document has a version and an array of servers: then that
  document is returned as the registry, and a store that accepts the write holds it under
  \<open>registry\<close>, stamped with the clock after the fetch and with a \<open>ttl\<close> of 300 s.
\<close>

theorem getRegistry_falls_back:
  assumes "getCachedData ctx REGISTRY_CACHE_KEY = (None, ctx1)"
    and "fetch pf registry_request = (res, d)"
  shows "(fst (getRegistry_try pf ctx) = Inl e \<longrightarrow>
            getRegistry pf ctx =
              (createFallbackRegistry (now (snd (getRegistry_try pf ctx))),
               snd (getRegistry_try pf ctx)))
       \<and> now (snd (getRegistry pf ctx)) = now ctx + d
       \<and> (res = Rejected e \<longrightarrow> fst (getRegistry pf ctx) = createFallbackRegistry (now ctx + d))
       \<and> (res = Responded r \<and> \<not> resp_ok r \<longrightarrow>
            fst (getRegistry pf ctx) = createFallbackRegistry (now ctx + d))
       \<and> (res = Responded r \<and> resp_ok r \<and> parse_json pf (resp_body r) = None \<longrightarrow>
            fst (getRegistry pf ctx) = createFallbackRegistry (now ctx + d))
       \<and> (res = Responded r \<and> resp_ok r \<and> parse_json pf (resp_body r) = Some JsonNull \<longrightarrow>
            fst (getRegistry pf ctx) = createFallbackRegistry (now ctx + d))
       \<and> (res = Responded r \<and> resp_ok r \<and> parse_json pf (resp_body r) = Some JsonScalar \<longrightarrow>
            fst (getRegistry pf ctx) = createFallbackRegistry (now ctx + d))
       \<and> (res = Responded r \<and> resp_ok r \<and> parse_json pf (resp_body r) = Some (JsonObject doc) \<and>
            (doc_servers doc = ServersFalsy \<or> doc_servers doc = ServersNotArray) \<longrightarrow>
            fst (getRegistry pf ctx) = createFallbackRegistry (now ctx + d))
       \<and> (res = Responded r \<and> resp_ok r \<and> parse_json pf (resp_body r) = Some (JsonObject doc) \<and>
            (doc_version doc = None \<or> doc_version doc = Some []) \<longrightarrow>
            fst (getRegistry pf ctx) = createFallbackRegistry (now ctx + d))
       \<and> length (servers (createFallbackRegistry (now ctx + d))) = 1
       \<and> (fst (getRegistry pf ctx) \<noteq> createFallbackRegistry (now ctx + d) \<longrightarrow>
            (\<exists>r' doc' v' srvs'.
               res = Responded r' \<and> resp_ok r' \<and>
               parse_json pf (resp_body r') = Some (JsonObject doc') \<and>
               doc_version doc' = Some v' \<and> v' \<noteq> [] \<and> doc_servers doc' = ServersArray srvs' \<and>
               fst (getRegistry pf ctx) =
                 \<lparr>registry_version = v', lastUpdated = doc_lastUpdated doc', servers = srvs',
                  stats = doc_stats doc'\<rparr>))
       \<and> (res = Responded r \<and> resp_ok r \<and> parse_json pf (resp_body r) = Some (JsonObject doc) \<and>
            doc_version doc = Some v \<and> v \<noteq> [] \<and> doc_servers doc = ServersArray srvs \<longrightarrow>
            fst (getRegistry pf ctx) =
              \<lparr>registry_version = v, lastUpdated = doc_lastUpdated doc, servers = srvs,
               stats = doc_stats doc\<rparr> \<and>
            (faults (MCP_CACHE ctx) OpPut = None \<longrightarrow>
               entries (MCP_CACHE (snd (getRegistry pf ctx))) REGISTRY_CACHE_KEY =
                 Some (VCacheEntry
                         \<lparr>registry_version = v, lastUpdated = doc_lastUpdated doc, servers = srvs,
                          stats = doc_stats doc\<rparr> (now ctx + d) REGISTRY_CACHE_TTL,
                       now ctx + d + (REGISTRY_CACHE_TTL + 60) * 1000)))"
proof -
  note keep = getCachedData_keeps[OF assms(1)]
  let ?c2 = "ctx1\<lparr>calls := calls ctx1 @ [(RegistryFetch, registry_request)], now := now ctx1 + d\<rparr>"
  let ?fb = "createFallbackRegistry (now ctx + d)"
  have now2: "now ?c2 = now ctx + d" using keep by simp
  have put2: "faults (MCP_CACHE ?c2) = faults (MCP_CACHE ctx)" using keep by simp
  have bad: "getRegistry pf ctx = (?fb, ?c2)"
    if "fst (fetchRegistryFromGitHub pf ctx1) = Inl err" for err
  proof -
    have "fetchRegistryFromGitHub pf ctx1 = (Inl err, ?c2)"
      using that fetch_registry_context[OF assms(2), where c = ctx1]
      by (metis prod.collapse)
    then show ?thesis
      using assms(1) now2 by (simp add: getRegistry_def getRegistry_try_def)
  qed
  have good: "fst (getRegistry pf ctx) = reg \<and>
        now (snd (getRegistry pf ctx)) = now ctx + d \<and>
        (faults (MCP_CACHE ctx) OpPut = None \<longrightarrow>
           entries (MCP_CACHE (snd (getRegistry pf ctx))) REGISTRY_CACHE_KEY =
             Some (VCacheEntry reg (now ctx + d) REGISTRY_CACHE_TTL,
                   now ctx + d + (REGISTRY_CACHE_TTL + 60) * 1000))"
    if "fst (fetchRegistryFromGitHub pf ctx1) = Inr reg" for reg
  proof -
    have "fetchRegistryFromGitHub pf ctx1 = (Inr reg, ?c2)"
      using that fetch_registry_context[OF assms(2), where c = ctx1]
      by (metis prod.collapse)
    then have "getRegistry pf ctx = (reg, snd (setCachedData ?c2 REGISTRY_CACHE_KEY reg REGISTRY_CACHE_TTL))"
      using assms(1) by (simp add: getRegistry_def getRegistry_try_def split: prod.splits)
    then show ?thesis
      using now2 put2
      by (simp add: setCachedData_def kv_put_def split: option.splits)
  qed
  note outcome = fetch_registry_outcome[OF assms(2), where c = ctx1]
  have bad': "fst (getRegistry pf ctx) = ?fb"
    if "\<exists>err. fst (fetchRegistryFromGitHub pf ctx1) = Inl err"
    using that bad by auto
  have thrown: "fst (getRegistry_try pf ctx) = Inl e \<longrightarrow>
            getRegistry pf ctx =
              (createFallbackRegistry (now (snd (getRegistry_try pf ctx))),
               snd (getRegistry_try pf ctx))"
    by (cases "getRegistry_try pf ctx") (auto simp: getRegistry_def)
  have fb: "length (servers ?fb) = 1"
    by (simp add: createFallbackRegistry_def)
  have clock: "now (snd (getRegistry pf ctx)) = now ctx + d"
  proof (cases "fst (fetchRegistryFromGitHub pf ctx1)")
    case (Inl err)
    then show ?thesis using bad[OF Inl] now2 by simp
  next
    case (Inr reg)
    then show ?thesis using good[OF Inr] by simp
  qed
  have c_rej: "res = Rejected e \<longrightarrow> fst (getRegistry pf ctx) = ?fb"
    using outcome(1)[where e = e] bad' by blast
  have c_status: "res = Responded r \<and> \<not> resp_ok r \<longrightarrow> fst (getRegistry pf ctx) = ?fb"
    using outcome(2)[where r = r] bad' by blast
  have c_json: "res = Responded r \<and> resp_ok r \<and> parse_json pf (resp_body r) = None \<longrightarrow>
      fst (getRegistry pf ctx) = ?fb"
    using outcome(3)[where r = r] bad' by blast
  have c_null: "res = Responded r \<and> resp_ok r \<and> parse_json pf (resp_body r) = Some JsonNull \<longrightarrow>
      fst (getRegistry pf ctx) = ?fb"
    using outcome(4)[where r = r] bad' by blast
  have c_scalar: "res = Responded r \<and> resp_ok r \<and> parse_json pf (resp_body r) = Some JsonScalar \<longrightarrow>
      fst (getRegistry pf ctx) = ?fb"
    using outcome(5)[where r = r] bad' by blast
  have c_servers: "res = Responded r \<and> resp_ok r \<and>
      parse_json pf (resp_body r) = Some (JsonObject doc) \<and>
      (doc_servers doc = ServersFalsy \<or> doc_servers doc = ServersNotArray) \<longrightarrow>
      fst (getRegistry pf ctx) = ?fb"
    using outcome(6)[where r = r and doc = doc] bad' by blast
  have c_version: "res = Responded r \<and> resp_ok r \<and>
      parse_json pf (resp_body r) = Some (JsonObject doc) \<and>
      (doc_version doc = None \<or> doc_version doc = Some []) \<longrightarrow>
      fst (getRegistry pf ctx) = ?fb"
    using outcome(7)[where r = r and doc = doc] bad' by blast
  have only: "fst (getRegistry pf ctx) \<noteq> ?fb \<longrightarrow>
            (\<exists>r' doc' v' srvs'.
               res = Responded r' \<and> resp_ok r' \<and>
               parse_json pf (resp_body r') = Some (JsonObject doc') \<and>
               doc_version doc' = Some v' \<and> v' \<noteq> [] \<and> doc_servers doc' = ServersArray srvs' \<and>
               fst (getRegistry pf ctx) =
                 \<lparr>registry_version = v', lastUpdated = doc_lastUpdated doc', servers = srvs',
                  stats = doc_stats doc'\<rparr>)"
  proof
    assume nfb: "fst (getRegistry pf ctx) \<noteq> ?fb"
    show "\<exists>r' doc' v' srvs'.
               res = Responded r' \<and> resp_ok r' \<and>
               parse_json pf (resp_body r') = Some (JsonObject doc') \<and>
               doc_version doc' = Some v' \<and> v' \<noteq> [] \<and> doc_servers doc' = ServersArray srvs' \<and>
               fst (getRegistry pf ctx) =
                 \<lparr>registry_version = v', lastUpdated = doc_lastUpdated doc', servers = srvs',
                  stats = doc_stats doc'\<rparr>"
    proof (cases "fst (fetchRegistryFromGitHub pf ctx1)")
      case (Inl err)
      then show ?thesis using bad[OF Inl] nfb by simp
    next
      case (Inr reg)
      then obtain r' doc' v' srvs' where
        "res = Responded r'" "resp_ok r'" "parse_json pf (resp_body r') = Some (JsonObject doc')"
        "doc_version doc' = Some v'" "v' \<noteq> []" "doc_servers doc' = ServersArray srvs'"
        "reg = \<lparr>registry_version = v', lastUpdated = doc_lastUpdated doc', servers = srvs',
                stats = doc_stats doc'\<rparr>"
        using fetch_registry_valid[OF assms(2), where c = ctx1 and reg = reg] by blast
      then show ?thesis using good[OF Inr] by blast
    qed
  qed
  have c_valid: "res = Responded r \<and> resp_ok r \<and>
      parse_json pf (resp_body r) = Some (JsonObject doc) \<and>
      doc_version doc = Some v \<and> v \<noteq> [] \<and> doc_servers doc = ServersArray srvs \<longrightarrow>
      fst (getRegistry pf ctx) =
        \<lparr>registry_version = v, lastUpdated = doc_lastUpdated doc, servers = srvs,
         stats = doc_stats doc\<rparr> \<and>
      (faults (MCP_CACHE ctx) OpPut = None \<longrightarrow>
         entries (MCP_CACHE (snd (getRegistry pf ctx))) REGISTRY_CACHE_KEY =
           Some (VCacheEntry
                   \<lparr>registry_version = v, lastUpdated = doc_lastUpdated doc, servers = srvs,
                    stats = doc_stats doc\<rparr> (now ctx + d) REGISTRY_CACHE_TTL,
                 now ctx + d + (REGISTRY_CACHE_TTL + 60) * 1000))"
  proof
    assume v: "res = Responded r \<and> resp_ok r \<and>
      parse_json pf (resp_body r) = Some (JsonObject doc) \<and>
      doc_version doc = Some v \<and> v \<noteq> [] \<and> doc_servers doc = ServersArray srvs"
    then have "fst (fetchRegistryFromGitHub pf ctx1) =
        Inr \<lparr>registry_version = v, lastUpdated = doc_lastUpdated doc, servers = srvs,
             stats = doc_stats doc\<rparr>"
      using outcome(8)[where r = r and doc = doc and v = v and srvs = srvs] by blast
    from good[OF this] show "fst (getRegistry pf ctx) =
        \<lparr>registry_version = v, lastUpdated = doc_lastUpdated doc, servers = srvs,
         stats = doc_stats doc\<rparr> \<and>
      (faults (MCP_CACHE ctx) OpPut = None \<longrightarrow>
         entries (MCP_CACHE (snd (getRegistry pf ctx))) REGISTRY_CACHE_KEY =
           Some (VCacheEntry
                   \<lparr>registry_version = v, lastUpdated = doc_lastUpdated doc, servers = srvs,
                    stats = doc_stats doc\<rparr> (now ctx + d) REGISTRY_CACHE_TTL,
                 now ctx + d + (REGISTRY_CACHE_TTL + 60) * 1000))"
      by simp
  qed
  from thrown clock c_rej c_status c_json c_null c_scalar c_servers c_version fb only c_valid
  show ?thesis by (intro conjI)
qed

theorem getRegistry_falls_back_witness:
  "fst (getRegistry down_platform base_ctx) = createFallbackRegistry 1000030
   \<and> fst (getRegistry (answering_platform 404 None) base_ctx) = createFallbackRegistry 1000030
   \<and> fst (getRegistry (answering_platform 200 None) base_ctx) = createFallbackRegistry 1000030
   \<and> fst (getRegistry (answering_platform 200 (Some JsonNull)) base_ctx) =
       createFallbackRegistry 1000030
   \<and> fst (getRegistry (answering_platform 200 (Some JsonScalar)) base_ctx) =
       createFallbackRegistry 1000030
   \<and> fst (getRegistry (answering_platform 200
             (Some (JsonObject (sample_doc\<lparr>doc_servers := ServersNotArray\<rparr>)))) base_ctx) =
       createFallbackRegistry 1000030
   \<and> fst (getRegistry (answering_platform 200
             (Some (JsonObject (sample_doc\<lparr>doc_version := None\<rparr>)))) base_ctx) =
       createFallbackRegistry 1000030
   \<and> length (servers (createFallbackRegistry 1000030)) = 1
   \<and> servers (fst (getRegistry (answering_platform 200 (Some (JsonObject sample_doc))) base_ctx)) =
       [probe_server]
   \<and> entries (MCP_CACHE (snd (getRegistry (answering_platform 200 (Some (JsonObject sample_doc)))
         base_ctx))) ''registry'' =
       Some (VCacheEntry \<lparr>registry_version = ''1.0.0'', lastUpdated = 900000,
               servers = [probe_server],
               stats = \<lparr>totalServers = 1, onlineServers = 0, totalRequests = 0\<rparr>\<rparr> 1000030 300,
             1360030)"
proof -
  have miss: "getCachedData (base_ctx :: Registry RequestContext) REGISTRY_CACHE_KEY = (None, base_ctx)"
    by (simp add: getCachedData_def kv_get_def base_ctx_def healthy_store_def)
  have f1: "fetch down_platform registry_request = (Rejected (JsError ''TypeError'' ''fetch failed''), 30)"
    by (simp add: down_platform_def)
  have f2: "\<And>st p. fetch (answering_platform st p) registry_request =
             (Responded (ok200\<lparr>resp_status := st\<rparr>), 30)"
    by (simp add: answering_platform_def)
  note w1 = getRegistry_falls_back [OF miss f1, where e = "JsError ''TypeError'' ''fetch failed''"]
  note w2 = getRegistry_falls_back [OF miss f2 [of 404 None], where r = "ok200\<lparr>resp_status := 404\<rparr>"]
  note w3 = getRegistry_falls_back [OF miss f2 [of 200 None], where r = "ok200\<lparr>resp_status := 200\<rparr>"]
  note w3a = getRegistry_falls_back [OF miss f2 [of 200 "Some JsonNull"],
      where r = "ok200\<lparr>resp_status := 200\<rparr>"]
  note w3b = getRegistry_falls_back [OF miss f2 [of 200 "Some JsonScalar"],
      where r = "ok200\<lparr>resp_status := 200\<rparr>"]
  note w4 = getRegistry_falls_back [OF miss
      f2 [of 200 "Some (JsonObject (sample_doc\<lparr>doc_servers := ServersNotArray\<rparr>))"],
      where r = "ok200\<lparr>resp_status := 200\<rparr>"
        and doc = "sample_doc\<lparr>doc_servers := ServersNotArray\<rparr>"]
  note w5 = getRegistry_falls_back [OF miss
      f2 [of 200 "Some (JsonObject (sample_doc\<lparr>doc_version := None\<rparr>))"],
      where r = "ok200\<lparr>resp_status := 200\<rparr>"
        and doc = "sample_doc\<lparr>doc_version := None\<rparr>"]
  note w6 = getRegistry_falls_back [OF miss f2 [of 200 "Some (JsonObject sample_doc)"],
      where r = "ok200\<lparr>resp_status := 200\<rparr>" and doc = sample_doc
        and v = "''1.0.0''" and srvs = "[probe_server]"]
  have t: "now (base_ctx :: Registry RequestContext) + 30 = 1000030"
    by (simp add: base_ctx_def)
  have ok: "resp_ok (ok200\<lparr>resp_status := 200\<rparr>)" and nok: "\<not> resp_ok (ok200\<lparr>resp_status := 404\<rparr>)"
    by (simp_all add: ok200_def resp_ok_def)
  have p: "\<And>st parsed body. parse_json (answering_platform st parsed) body = parsed"
    by (simp add: answering_platform_def)
  have put: "faults (MCP_CACHE (base_ctx :: Registry RequestContext)) OpPut = None"
    by (simp add: base_ctx_def healthy_store_def)
  from w1 have c1: "fst (getRegistry down_platform base_ctx) = createFallbackRegistry 1000030"
    unfolding t by blast
  from w2 nok have c2: "fst (getRegistry (answering_platform 404 None) base_ctx) =
      createFallbackRegistry 1000030"
    unfolding t by blast
  from w3 ok p have c3: "fst (getRegistry (answering_platform 200 None) base_ctx) =
      createFallbackRegistry 1000030"
    unfolding t by blast
  from w3a ok p have c3a: "fst (getRegistry (answering_platform 200 (Some JsonNull)) base_ctx) =
       createFallbackRegistry 1000030"
    unfolding t by blast
  from w3b ok p have c3b: "fst (getRegistry (answering_platform 200 (Some JsonScalar)) base_ctx) =
       createFallbackRegistry 1000030"
    unfolding t by blast
  have s4: "doc_servers (sample_doc\<lparr>doc_servers := ServersNotArray\<rparr>) = ServersNotArray"
    and s5: "doc_version (sample_doc\<lparr>doc_version := None\<rparr>) = None"
    and s6: "doc_version sample_doc = Some ''1.0.0''" "''1.0.0'' \<noteq> []"
      "doc_servers sample_doc = ServersArray [probe_server]"
      "doc_lastUpdated sample_doc = 900000"
      "doc_stats sample_doc = \<lparr>totalServers = 1, onlineServers = 0, totalRequests = 0\<rparr>"
    by (simp_all add: sample_doc_def)
  from w4 ok p s4 have c4: "fst (getRegistry (answering_platform 200
             (Some (JsonObject (sample_doc\<lparr>doc_servers := ServersNotArray\<rparr>)))) base_ctx) =
       createFallbackRegistry 1000030"
    unfolding t by blast
  from w5 ok p s5 have c5: "fst (getRegistry (answering_platform 200
             (Some (JsonObject (sample_doc\<lparr>doc_version := None\<rparr>)))) base_ctx) =
       createFallbackRegistry 1000030"
    unfolding t by blast
  from w1 have c6: "length (servers (createFallbackRegistry 1000030)) = 1"
    unfolding t by blast
  from w6 ok p s6(1,2,3) put have v6:
    "fst (getRegistry (answering_platform 200 (Some (JsonObject sample_doc))) base_ctx) =
       \<lparr>registry_version = ''1.0.0'', lastUpdated = doc_lastUpdated sample_doc,
        servers = [probe_server], stats = doc_stats sample_doc\<rparr>"
    "entries (MCP_CACHE (snd (getRegistry (answering_platform 200 (Some (JsonObject sample_doc)))
         base_ctx))) REGISTRY_CACHE_KEY =
       Some (VCacheEntry \<lparr>registry_version = ''1.0.0'', lastUpdated = doc_lastUpdated sample_doc,
               servers = [probe_server], stats = doc_stats sample_doc\<rparr> 1000030 REGISTRY_CACHE_TTL,
             1000030 + (REGISTRY_CACHE_TTL + 60) * 1000)"
    unfolding t by blast+
  have c7: "servers (fst (getRegistry (answering_platform 200 (Some (JsonObject sample_doc))) base_ctx)) =
       [probe_server]"
    by (simp add: v6(1))
  have c8: "entries (MCP_CACHE (snd (getRegistry (answering_platform 200 (Some (JsonObject sample_doc)))
         base_ctx))) ''registry'' =
       Some (VCacheEntry \<lparr>registry_version = ''1.0.0'', lastUpdated = 900000,
               servers = [probe_server],
               stats = \<lparr>totalServers = 1, onlineServers = 0, totalRequests = 0\<rparr>\<rparr> 1000030 300,
             1360030)"
    using v6(2) by (simp add: s6 REGISTRY_CACHE_KEY_def REGISTRY_CACHE_TTL_def)
  show ?thesis
    by (intro conjI) (fact c1 c2 c3 c3a c3b c4 c5 c6 c7 c8)+
qed

section \<open>The health sweep\<close>

text \<open>
  The runs of the loop partition the server list in order, there are \<open>\<lceil>N/10\<rceil>\<close> of them,
  each probes between one and ten servers, and each starts when the one before has ended.
\<close>

lemma sweep_from_servers:
  "concat (map b_servers (sweep_from pr i srvs t)) = drop i srvs"
proof (induction pr i srvs t rule: sweep_from.induct)
  case (1 pr i srvs t)
  show ?case
  proof (cases "i < length srvs")
    case True
    have "take MAX_CONCURRENT_CHECKS (drop i srvs) @ drop (i + MAX_CONCURRENT_CHECKS) srvs = drop i srvs"
      by (metis add.commute append_take_drop_id drop_drop)
    then show ?thesis
      using True 1
      by (subst sweep_from.simps) (simp add: Let_def run_batch_def)
  next
    case False
    then show ?thesis by (subst sweep_from.simps) simp
  qed
qed

lemma batch_count_step:
  fixes n i :: nat
  assumes "i < n"
  shows "(n - i + 9) div 10 = Suc ((n - (i + 10) + 9) div 10)"
proof (cases "i + 10 \<le> n")
  case True
  then obtain m where "n = i + 10 + m" by (auto simp: le_iff_add)
  then show ?thesis by simp
next
  case False
  from assms obtain m where m: "n = i + m" "0 < m"
    by (auto dest: less_imp_add_positive)
  with False have "m < 10" by simp
  with m show ?thesis by simp
qed

lemma sweep_from_length:
  "length (sweep_from pr i srvs t) = (length srvs - i + 9) div 10"
proof (induction pr i srvs t rule: sweep_from.induct)
  case (1 pr i srvs t)
  show ?case
  proof (cases "i < length srvs")
    case True
    then have "length (sweep_from pr i srvs t) =
        Suc (length (sweep_from pr (i + MAX_CONCURRENT_CHECKS) srvs
               (b_end (run_batch pr t (take MAX_CONCURRENT_CHECKS (drop i srvs))))))"
      by (subst sweep_from.simps) (simp add: Let_def)
    also have "\<dots> = Suc ((length srvs - (i + 10) + 9) div 10)"
      using 1 True by (simp add: MAX_CONCURRENT_CHECKS_def)
    also have "\<dots> = (length srvs - i + 9) div 10"
      using True by (rule_tac batch_count_step [symmetric]) simp
    finally show ?thesis .
  next
    case False
    then show ?thesis by (subst sweep_from.simps) simp
  qed
qed

lemma foldr_max_ge: "x \<in> set xs \<Longrightarrow> x \<le> foldr max xs (0::int)"
  by (induction xs) auto

lemma run_batch_facts:
  "b_start (run_batch pr t batch) = t"
  "b_servers (run_batch pr t batch) = batch"
  "b_results (run_batch pr t batch) = map (\<lambda>s. fst (guarded_probe pr t s)) batch"
  "s \<in> set batch \<Longrightarrow> t + snd (guarded_probe pr t s) \<le> b_end (run_batch pr t batch)"
  by (auto simp: run_batch_def Let_def comp_def intro!: foldr_max_ge)

lemma sweep_from_runs:
  "run \<in> set (sweep_from pr i srvs t) \<Longrightarrow>
     1 \<le> length (b_servers run) \<and> length (b_servers run) \<le> 10 \<and>
     b_results run = map (\<lambda>s. fst (guarded_probe pr (b_start run) s)) (b_servers run) \<and>
     (\<forall>s\<in>set (b_servers run). b_start run + snd (guarded_probe pr (b_start run) s) \<le> b_end run)"
proof (induction pr i srvs t rule: sweep_from.induct)
  case (1 pr i srvs t)
  show ?case
  proof (cases "i < length srvs")
    case True
    let ?batch = "take MAX_CONCURRENT_CHECKS (drop i srvs)"
    let ?run = "run_batch pr t ?batch"
    have unfold: "sweep_from pr i srvs t =
        ?run # sweep_from pr (i + MAX_CONCURRENT_CHECKS) srvs (b_end ?run)"
      using True by (subst sweep_from.simps) (simp add: Let_def)
    from "1.prems" unfold consider "run = ?run"
      | "run \<in> set (sweep_from pr (i + MAX_CONCURRENT_CHECKS) srvs (b_end ?run))"
      by auto
    then show ?thesis
    proof cases
      case 1
      have "1 \<le> length ?batch" "length ?batch \<le> 10"
        using True by (simp_all add: MAX_CONCURRENT_CHECKS_def)
      then show ?thesis using 1 run_batch_facts[where pr = pr and t = t and batch = ?batch] by auto
    next
      case 2
      then show ?thesis using "1.IH"[OF True refl] by simp
    qed
  next
    case False
    then show ?thesis using "1.prems" by (subst (asm) sweep_from.simps) simp
  qed
qed

lemma sweep_from_sequential:
  "Suc k < length (sweep_from pr i srvs t) \<Longrightarrow>
     b_start (sweep_from pr i srvs t ! Suc k) = b_end (sweep_from pr i srvs t ! k)"
  and sweep_from_first:
  "sweep_from pr i srvs t \<noteq> [] \<Longrightarrow> b_start (hd (sweep_from pr i srvs t)) = t"
proof (induction pr i srvs t arbitrary: k rule: sweep_from.induct)
  case (1 pr i srvs t)
  let ?batch = "take MAX_CONCURRENT_CHECKS (drop i srvs)"
  let ?run = "run_batch pr t ?batch"
  let ?rest = "sweep_from pr (i + MAX_CONCURRENT_CHECKS) srvs (b_end ?run)"
  {
    case 1
    then have True: "i < length srvs" by (subst (asm) sweep_from.simps) (auto split: if_splits)
    have unfold: "sweep_from pr i srvs t = ?run # ?rest"
      using True by (subst sweep_from.simps) (simp add: Let_def)
    show ?case
    proof (cases k)
      case 0
      then have ne: "?rest \<noteq> []" using 1 unfold by auto
      have "b_start (hd ?rest) = b_end ?run" using "1.IH"(2)[OF True refl ne] .
      then show ?thesis using 0 unfold ne by (simp add: hd_conv_nth)
    next
      case (Suc j)
      then have "Suc j < length ?rest" using 1 unfold by simp
      then show ?thesis using "1.IH"(1)[OF True refl] Suc unfold by simp
    qed
  next
    case 2
    then have True: "i < length srvs" by (subst (asm) sweep_from.simps) (auto split: if_splits)
    have unfold: "sweep_from pr i srvs t = ?run # ?rest"
      using True by (subst sweep_from.simps) (simp add: Let_def)
    show ?case using unfold by (simp add: run_batch_facts)
  }
qed

lemma summarize_counts:
  "hs_onlineServers (summarize results t) + hs_degradedServers (summarize results t) +
   hs_offlineServers (summarize results t) = length results"
proof (induction results)
  case Nil
  then show ?case by (simp add: summarize_def)
next
  case (Cons r rs)
  then show ?case by (cases "status r") (simp_all add: summarize_def)
qed

lemma put_or_skip_faults [simp]: "faults (put_or_skip kv k v e t) = faults kv"
  by (simp add: put_or_skip_def kv_put_def split: option.splits)

lemma foldl_put_faults:
  "faults (foldl (\<lambda>kv r. put_or_skip kv (f r) (g r) e t) kv rs) = faults kv"
  by (induction rs arbitrary: kv) simp_all

lemma put_or_skip_entry:
  "faults kv OpPut = None \<Longrightarrow> entries (put_or_skip kv k v e t) k = Some (v, t + e * 1000)"
  by (simp add: put_or_skip_def kv_put_def)

lemma store_summary:
  assumes "faults (MCP_CACHE ctx) OpPut = None"
  shows "entries (MCP_CACHE (storeHealthCheckResults ctx results)) ''health:summary'' =
           Some (VSummary (summarize results (now ctx)), now ctx + 600000)"
proof -
  let ?kv1 = "foldl (\<lambda>kv r. put_or_skip kv (''health:'' @ serverId r) (VHealth r)
                                   (HEALTH_CHECK_CACHE_TTL * 2) (now ctx))
                      (MCP_CACHE ctx) results"
  have "faults ?kv1 = faults (MCP_CACHE ctx)" by (rule foldl_put_faults)
  then have ok: "faults ?kv1 OpPut = None" using assms by simp
  have "entries (put_or_skip ?kv1 ''health:summary'' (VSummary (summarize results (now ctx)))
                  (HEALTH_CHECK_CACHE_TTL * 2) (now ctx)) ''health:summary'' =
        Some (VSummary (summarize results (now ctx)), now ctx + HEALTH_CHECK_CACHE_TTL * 2 * 1000)"
    by (rule put_or_skip_entry[OF ok])
  then show ?thesis
    by (simp add: storeHealthCheckResults_def Let_def HEALTH_CHECK_CACHE_TTL_def)
qed

lemma store_now [simp]: "now (storeHealthCheckResults ctx results) = now ctx"
  by (simp add: storeHealthCheckResults_def Let_def)


lemma concat_results_length:
  "\<forall>run\<in>set runs. length (b_results run) = length (b_servers run) \<Longrightarrow>
     length (concat (map b_results runs)) = length (concat (map b_servers runs))"
  by (induction runs) simp_all

lemma checkServerHealth_serverId [simp]:
  "serverId (checkServerHealth net t server) = server_id server"
  by (simp add: checkServerHealth_def split: prod.splits fetch_result.splits js_error.splits)

lemma guarded_health_probe [simp]:
  "fst (guarded_probe (health_probe net) t server) = checkServerHealth net t server"
  by (simp add: guarded_probe_def health_probe_def)

lemma concat_results_ids:
  "\<forall>run\<in>set runs. map serverId (b_results run) = map server_id (b_servers run) \<Longrightarrow>
     map serverId (concat (map b_results runs)) = map server_id (concat (map b_servers runs))"
  by (induction runs) simp_all

text \<open>
  Claim C5.  Over any probe, the sweep of a registry of \<open>N\<close> servers makes
  \<open>(N + 9) div 10\<close> runs, each of at most ten servers started together and ended when its
  slowest probe has settled, each run starting at the end of the one before.  The runs
  cover the servers in order and the results are one per server; a probe that rejects
  gives the offline result with the error's message.  With the probe of the repository the
  results carry the servers' ids, in order.  The summary written to a store that accepts
  the write counts \<open>N\<close> servers, and its online, degraded and offline counts add up to
  \<open>N\<close>.
\<close>

theorem sweep_batches_and_summary:
  assumes "getRegistry pf ctx = (registry, ctx1)"
    and "sweep_with pr pf ctx = (results, runs, ctx')"
  shows "length runs = (length (servers registry) + 9) div 10
       \<and> (\<forall>run\<in>set runs.
             1 \<le> length (b_servers run) \<and> length (b_servers run) \<le> 10 \<and>
             b_results run = map (\<lambda>s. fst (guarded_probe pr (b_start run) s)) (b_servers run) \<and>
             (\<forall>s\<in>set (b_servers run).
                b_start run + snd (guarded_probe pr (b_start run) s) \<le> b_end run))
       \<and> (\<forall>k. Suc k < length runs \<longrightarrow> b_start (runs ! Suc k) = b_end (runs ! k))
       \<and> concat (map b_servers runs) = servers registry
       \<and> results = concat (map b_results runs)
       \<and> length results = length (servers registry)
       \<and> (\<forall>t s e d. pr t s = (Inl e, d) \<longrightarrow>
             fst (guarded_probe pr t s) =
               \<lparr>serverId = server_id s, status = CheckOffline, responseTime = None,
                error = Some (error_text e ''Health check failed''), timestamp = t + d\<rparr>)
       \<and> (pr = health_probe (fetch pf) \<longrightarrow>
             map serverId results = map server_id (servers registry) \<and>
             checkAllServersHealth pf ctx = (results, ctx'))
       \<and> (faults (MCP_CACHE ctx1) OpPut = None \<longrightarrow>
             entries (MCP_CACHE ctx') ''health:summary'' =
               Some (VSummary (summarize results (now ctx')), now ctx' + 600000))
       \<and> hs_totalServers (summarize results (now ctx')) = length (servers registry)
       \<and> hs_onlineServers (summarize results (now ctx')) +
          hs_degradedServers (summarize results (now ctx')) +
          hs_offlineServers (summarize results (now ctx')) = length (servers registry)"
proof -
  let ?srvs = "servers registry"
  let ?ctx2 = "ctx1\<lparr>now := (if runs = [] then now ctx1 else b_end (last runs)),
                    calls := calls ctx1 @
                      map (\<lambda>server. (HealthProbe, health_request server))
                          (concat (map b_servers runs))\<rparr>"
  have "sweep_with pr pf ctx =
      (let rs = sweep_from pr 0 ?srvs (now ctx1); res = concat (map b_results rs)
       in (res, rs,
           storeHealthCheckResults
             (ctx1\<lparr>now := (if rs = [] then now ctx1 else b_end (last rs)),
                   calls := calls ctx1 @
                     map (\<lambda>server. (HealthProbe, health_request server))
                         (concat (map b_servers rs))\<rparr>) res))"
    using assms(1) by (simp add: sweep_with_def Let_def)
  then have runs: "runs = sweep_from pr 0 ?srvs (now ctx1)"
    and results: "results = concat (map b_results runs)"
    and ctx': "ctx' = storeHealthCheckResults ?ctx2 results"
    using assms(2) by (auto simp: Let_def)
  have n: "length runs = (length ?srvs + 9) div 10"
    using sweep_from_length[of pr 0 ?srvs "now ctx1"] runs by simp
  have each: "\<forall>run\<in>set runs.
             1 \<le> length (b_servers run) \<and> length (b_servers run) \<le> 10 \<and>
             b_results run = map (\<lambda>s. fst (guarded_probe pr (b_start run) s)) (b_servers run) \<and>
             (\<forall>s\<in>set (b_servers run).
                b_start run + snd (guarded_probe pr (b_start run) s) \<le> b_end run)"
    using sweep_from_runs[of _ pr 0 ?srvs "now ctx1"] runs by blast
  have seq: "\<forall>k. Suc k < length runs \<longrightarrow> b_start (runs ! Suc k) = b_end (runs ! k)"
    using sweep_from_sequential[of _ pr 0 ?srvs "now ctx1"] runs by blast
  have part: "concat (map b_servers runs) = ?srvs"
    using sweep_from_servers[of pr 0 ?srvs "now ctx1"] runs by simp
  have "\<forall>run\<in>set runs. length (b_results run) = length (b_servers run)"
    using each by simp
  then have len: "length results = length ?srvs"
    using concat_results_length[of runs] part results by simp
  have thrown: "\<forall>t s e d. pr t s = (Inl e, d) \<longrightarrow>
             fst (guarded_probe pr t s) =
               \<lparr>serverId = server_id s, status = CheckOffline, responseTime = None,
                error = Some (error_text e ''Health check failed''), timestamp = t + d\<rparr>"
    by (simp add: guarded_probe_def error_text_def)
  have own: "pr = health_probe (fetch pf) \<longrightarrow>
             map serverId results = map server_id ?srvs \<and>
             checkAllServersHealth pf ctx = (results, ctx')"
  proof
    assume pr: "pr = health_probe (fetch pf)"
    have "\<forall>run\<in>set runs. map serverId (b_results run) = map server_id (b_servers run)"
      using each pr by (simp add: comp_def)
    then have "map serverId results = map server_id ?srvs"
      using concat_results_ids[of runs] part results by simp
    moreover have "checkAllServersHealth pf ctx = (results, ctx')"
      using assms(2) pr by (simp add: checkAllServersHealth_def)
    ultimately show "map serverId results = map server_id ?srvs \<and>
             checkAllServersHealth pf ctx = (results, ctx')" by simp
  qed
  have stored: "faults (MCP_CACHE ctx1) OpPut = None \<longrightarrow>
             entries (MCP_CACHE ctx') ''health:summary'' =
               Some (VSummary (summarize results (now ctx')), now ctx' + 600000)"
  proof
    assume "faults (MCP_CACHE ctx1) OpPut = None"
    then have "faults (MCP_CACHE ?ctx2) OpPut = None" by simp
    from store_summary[OF this, of results] show "entries (MCP_CACHE ctx') ''health:summary'' =
               Some (VSummary (summarize results (now ctx')), now ctx' + 600000)"
      by (simp add: ctx')
  qed
  have tot: "hs_totalServers (summarize results (now ctx')) = length ?srvs"
    using len by (simp add: summarize_def)
  have sum: "hs_onlineServers (summarize results (now ctx')) +
          hs_degradedServers (summarize results (now ctx')) +
          hs_offlineServers (summarize results (now ctx')) = length ?srvs"
    using summarize_counts[of results "now ctx'"] len by simp
  from n each seq part results len thrown own stored tot sum show ?thesis by blast
qed

lemma fleet_registry:
  "servers (fst (getRegistry fleet_platform (base_ctx :: Registry RequestContext))) = fleet"
  "faults (MCP_CACHE (snd (getRegistry fleet_platform (base_ctx :: Registry RequestContext)))) OpPut = None"
  by (simp_all add: getRegistry_def getRegistry_try_def getCachedData_def kv_get_def
      fetchRegistryFromGitHub_def do_fetch_def setCachedData_def kv_put_def
      base_ctx_def healthy_store_def fleet_platform_def answering_platform_def ok200_def
      resp_ok_def sample_doc_def REGISTRY_CACHE_KEY_def)

lemma fleet_length: "length fleet = 25"
  by (simp add: fleet_def)

theorem sweep_batches_and_summary_witness:
  "length (fst (snd (sweep_with flaky_probe fleet_platform base_ctx))) = 3
   \<and> length (fst (sweep_with flaky_probe fleet_platform base_ctx)) = 25
   \<and> length (b_servers (hd (fst (snd (sweep_with flaky_probe fleet_platform base_ctx))))) \<le> 10
   \<and> fst (guarded_probe flaky_probe 0 (probe_server\<lparr>server_id := ''7''\<rparr>)) =
       \<lparr>serverId = ''7'', status = CheckOffline, responseTime = None,
        error = Some ''probe crashed'', timestamp = 5\<rparr>
   \<and> map serverId (fst (checkAllServersHealth fleet_platform base_ctx)) = map server_id fleet
   \<and> entries (MCP_CACHE (snd (snd (sweep_with flaky_probe fleet_platform base_ctx)))) ''health:summary'' =
       Some (VSummary (summarize (fst (sweep_with flaky_probe fleet_platform base_ctx))
                        (now (snd (snd (sweep_with flaky_probe fleet_platform base_ctx))))),
             now (snd (snd (sweep_with flaky_probe fleet_platform base_ctx))) + 600000)
   \<and> hs_onlineServers (summarize (fst (sweep_with flaky_probe fleet_platform base_ctx))
                        (now (snd (snd (sweep_with flaky_probe fleet_platform base_ctx))))) +
      hs_degradedServers (summarize (fst (sweep_with flaky_probe fleet_platform base_ctx))
                        (now (snd (snd (sweep_with flaky_probe fleet_platform base_ctx))))) +
      hs_offlineServers (summarize (fst (sweep_with flaky_probe fleet_platform base_ctx))
                        (now (snd (snd (sweep_with flaky_probe fleet_platform base_ctx))))) = 25"
proof -
  let ?own = "health_probe (fetch fleet_platform)"
  have h1: "getRegistry fleet_platform (base_ctx :: Registry RequestContext) =
      (fst (getRegistry fleet_platform base_ctx), snd (getRegistry fleet_platform base_ctx))"
    by (rule surjective_pairing)
  have h2: "\<And>pr. sweep_with pr fleet_platform base_ctx =
      (fst (sweep_with pr fleet_platform base_ctx),
       fst (snd (sweep_with pr fleet_platform base_ctx)),
       snd (snd (sweep_with pr fleet_platform base_ctx)))"
    by simp
  note w = sweep_batches_and_summary [OF h1 h2 [of flaky_probe]]
  note v = sweep_batches_and_summary [OF h1 h2 [of ?own]]
  have crash: "flaky_probe 0 (probe_server\<lparr>server_id := ''7''\<rparr>) =
      (Inl (JsError ''Error'' ''probe crashed''), 5)"
    by (simp add: flaky_probe_def)
  have n: "length (fst (snd (sweep_with flaky_probe fleet_platform base_ctx))) = 3"
    using w by (simp add: fleet_registry fleet_length)
  then have "fst (snd (sweep_with flaky_probe fleet_platform base_ctx)) \<noteq> []" by auto
  then have first: "hd (fst (snd (sweep_with flaky_probe fleet_platform base_ctx)))
      \<in> set (fst (snd (sweep_with flaky_probe fleet_platform base_ctx)))" by simp
  have small: "length (b_servers (hd (fst (snd (sweep_with flaky_probe fleet_platform base_ctx))))) \<le> 10"
    using w first by blast
  have thrown: "fst (guarded_probe flaky_probe 0 (probe_server\<lparr>server_id := ''7''\<rparr>)) =
       \<lparr>serverId = ''7'', status = CheckOffline, responseTime = None,
        error = Some ''probe crashed'', timestamp = 5\<rparr>"
    using w crash by (simp add: error_text_def)
  have ids: "map serverId (fst (checkAllServersHealth fleet_platform base_ctx)) = map server_id fleet"
  proof -
    from v have "map serverId (fst (sweep_with ?own fleet_platform base_ctx)) =
        map server_id (servers (fst (getRegistry fleet_platform base_ctx)))"
      and "checkAllServersHealth fleet_platform base_ctx =
        (fst (sweep_with ?own fleet_platform base_ctx),
         snd (snd (sweep_with ?own fleet_platform base_ctx)))"
      by blast+
    then show ?thesis by (simp add: fleet_registry)
  qed
  from w have "length (fst (sweep_with flaky_probe fleet_platform base_ctx)) =
      length (servers (fst (getRegistry fleet_platform base_ctx)))" by blast
  then have len25: "length (fst (sweep_with flaky_probe fleet_platform base_ctx)) = 25"
    by (simp add: fleet_registry fleet_length)
  from w fleet_registry(2) have stored:
    "entries (MCP_CACHE (snd (snd (sweep_with flaky_probe fleet_platform base_ctx)))) ''health:summary'' =
       Some (VSummary (summarize (fst (sweep_with flaky_probe fleet_platform base_ctx))
                        (now (snd (snd (sweep_with flaky_probe fleet_platform base_ctx))))),
             now (snd (snd (sweep_with flaky_probe fleet_platform base_ctx))) + 600000)"
    by blast
  from w have "hs_onlineServers (summarize (fst (sweep_with flaky_probe fleet_platform base_ctx))
                        (now (snd (snd (sweep_with flaky_probe fleet_platform base_ctx))))) +
      hs_degradedServers (summarize (fst (sweep_with flaky_probe fleet_platform base_ctx))
                        (now (snd (snd (sweep_with flaky_probe fleet_platform base_ctx))))) +
      hs_offlineServers (summarize (fst (sweep_with flaky_probe fleet_platform base_ctx))
                        (now (snd (snd (sweep_with flaky_probe fleet_platform base_ctx))))) =
      length (servers (fst (getRegistry fleet_platform base_ctx)))" by blast
  then have total: "hs_onlineServers (summarize (fst (sweep_with flaky_probe fleet_platform base_ctx))
                        (now (snd (snd (sweep_with flaky_probe fleet_platform base_ctx))))) +
      hs_degradedServers (summarize (fst (sweep_with flaky_probe fleet_platform base_ctx))
                        (now (snd (snd (sweep_with flaky_probe fleet_platform base_ctx))))) +
      hs_offlineServers (summarize (fst (sweep_with flaky_probe fleet_platform base_ctx))
                        (now (snd (snd (sweep_with flaky_probe fleet_platform base_ctx))))) = 25"
    by (simp add: fleet_registry fleet_length)
  show ?thesis
    by (intro conjI) (fact n len25 small thrown ids stored total)+
qed

section \<open>The schema merge\<close>

text \<open>
  The \<open>Map\<close> built by \<open>group_by_name\<close> has one key per name, holding all definitions of
  that name; \<open>resolve_entries\<close> passes a single definition on, and for several emits every
  one of them renamed and one conflict record.
\<close>

lemma group_add_keys:
  "map fst (group_add d m) = (if name d \<in> set (map fst m) then map fst m else map fst m @ [name d])"
  by (induction m) (force split: if_splits)+

lemma group_add_distinct:
  "distinct (map fst m) \<Longrightarrow> distinct (map fst (group_add d m))"
  by (simp add: group_add_keys)

lemma group_add_lookup:
  "map_of (group_add d m) k =
     (if k = name d then Some ((case map_of m k of None \<Rightarrow> [] | Some ds \<Rightarrow> ds) @ [d])
      else map_of m k)"
  by (induction m) auto

lemma grouped_step:
  assumes "grouped m defs"
  shows "grouped (group_add d m) (defs @ [d])"
  unfolding grouped_def
proof (intro conjI allI)
  show "distinct (map fst (group_add d m))"
    using assms by (simp add: grouped_def group_add_distinct)
next
  fix k
  show "map_of (group_add d m) k =
        (if filter (\<lambda>x. name x = k) (defs @ [d]) = [] then None
         else Some (filter (\<lambda>x. name x = k) (defs @ [d])))"
    using assms by (auto simp: grouped_def group_add_lookup)
qed

lemma grouped_foldl:
  "grouped m defs \<Longrightarrow> grouped (foldl (\<lambda>m d. group_add d m) m rest) (defs @ rest)"
proof (induction rest arbitrary: m defs)
  case Nil
  then show ?case by simp
next
  case (Cons d rest)
  from Cons.IH[OF grouped_step[OF Cons.prems, of d]] show ?case by simp
qed

lemma grouped_group_by_name: "grouped (group_by_name defs) defs"
  using grouped_foldl[of "[]" "[]" defs] by (simp add: group_by_name_def grouped_def)

lemma grouped_entry:
  assumes "grouped m defs" and "filter (\<lambda>d. name d = n) defs \<noteq> []"
  shows "(n, filter (\<lambda>d. name d = n) defs) \<in> set m"
  using assms by (auto simp: grouped_def intro: map_of_SomeD)

lemma resolve_entries_resolved:
  "(k, ds) \<in> set m \<Longrightarrow>
     (length ds = 1 \<longrightarrow> ds ! 0 \<in> set (fst (resolve_entries kind m))) \<and>
     (length ds \<noteq> 1 \<longrightarrow> (\<forall>d\<in>set ds. namespaced d \<in> set (fst (resolve_entries kind m))))"
  by (induction m) (auto split: prod.splits)

lemma resolve_entries_no_key:
  "k \<notin> set (map fst m) \<Longrightarrow>
     filter (\<lambda>c. conflict_name c = k) (snd (resolve_entries kind m)) = []"
  by (induction m) (auto split: prod.splits)

lemma resolve_entries_conflicts:
  "distinct (map fst m) \<Longrightarrow> (k, ds) \<in> set m \<Longrightarrow>
     filter (\<lambda>c. conflict_name c = k) (snd (resolve_entries kind m)) =
       (if length ds = 1 then [] else [conflict_of kind k ds])"
proof (induction m)
  case Nil
  then show ?case by simp
next
  case (Cons e m)
  obtain k' ds' where e: "e = (k', ds')" by (cases e)
  show ?case
  proof (cases "k' = k")
    case True
    then have "ds' = ds" using Cons.prems e by (auto simp: rev_image_eqI)
    moreover have "k \<notin> set (map fst m)" using Cons.prems True e by simp
    ultimately show ?thesis
      using True e resolve_entries_no_key[of k m kind]
      by (auto simp: conflict_of_def split: prod.splits)
  next
    case False
    then have "(k, ds) \<in> set m" using Cons.prems e by auto
    then show ?thesis using Cons False e by (auto split: prod.splits)
  qed
qed

lemma resolve_entries_kind:
  "c \<in> set (snd (resolve_entries kind m)) \<Longrightarrow> conflict_kind c = kind"
  by (induction m) (auto split: prod.splits if_splits)

lemma resolve_conflicts_rule:
  fixes defs :: "'a NamedDefinition_scheme list"
  assumes "resolve_conflicts kind defs = (resolved, conflicts)"
  shows "(filter (\<lambda>x. name x = n) defs = [d] \<longrightarrow>
            d \<in> set resolved \<and> filter (\<lambda>c. conflict_name c = n) conflicts = [])
       \<and> (2 \<le> length (filter (\<lambda>x. name x = n) defs) \<longrightarrow>
            (\<forall>x\<in>set (filter (\<lambda>x. name x = n) defs). namespaced x \<in> set resolved) \<and>
            filter (\<lambda>c. conflict_name c = n) conflicts =
              [conflict_of kind n (filter (\<lambda>x. name x = n) defs)])
       \<and> (\<forall>c\<in>set conflicts. conflict_kind c = kind)"
proof -
  let ?m = "group_by_name defs"
  let ?same = "filter (\<lambda>x. name x = n) defs"
  have g: "grouped ?m defs" by (rule grouped_group_by_name)
  then have dist: "distinct (map fst ?m)" by (simp add: grouped_def)
  have res: "resolved = fst (resolve_entries kind ?m)" "conflicts = snd (resolve_entries kind ?m)"
    using assms by (simp_all add: resolve_conflicts_def)
  have one: "?same = [d] \<longrightarrow>
            d \<in> set resolved \<and> filter (\<lambda>c. conflict_name c = n) conflicts = []"
  proof
    assume s: "?same = [d]"
    then have "(n, [d]) \<in> set ?m" using grouped_entry[OF g, of n] by simp
    then show "d \<in> set resolved \<and> filter (\<lambda>c. conflict_name c = n) conflicts = []"
      using resolve_entries_resolved[of n "[d]" ?m kind]
        resolve_entries_conflicts[OF dist, of n "[d]" kind] res by simp
  qed
  have many: "2 \<le> length ?same \<longrightarrow>
            (\<forall>x\<in>set ?same. namespaced x \<in> set resolved) \<and>
            filter (\<lambda>c. conflict_name c = n) conflicts = [conflict_of kind n ?same]"
  proof
    assume s: "2 \<le> length ?same"
    then have "?same \<noteq> []" by auto
    then have "(n, ?same) \<in> set ?m" using grouped_entry[OF g, of n] by simp
    then show "(\<forall>x\<in>set ?same. namespaced x \<in> set resolved) \<and>
            filter (\<lambda>c. conflict_name c = n) conflicts = [conflict_of kind n ?same]"
      using resolve_entries_resolved[of n ?same ?m kind]
        resolve_entries_conflicts[OF dist, of n ?same kind] res s by simp
  qed
  have kinds: "\<forall>c\<in>set conflicts. conflict_kind c = kind"
    using resolve_entries_kind[of _ kind ?m] res by blast
  from one many kinds show ?thesis by blast
qed


lemma filter_kind_name:
  "\<forall>c\<in>set cs. conflict_kind c = k \<Longrightarrow>
     filter (\<lambda>c. conflict_kind c = k' \<and> conflict_name c = n) cs =
       (if k = k' then filter (\<lambda>c. conflict_name c = n) cs else [])"
  by (induction cs) auto

lemma mergeSchemas_fields:
  "fs_tools (mergeSchemas schemas t) =
     fst (resolve_conflicts ToolConflict (concat (map (\<lambda>s. or_empty (schema_tools s)) schemas)))"
  "fs_resources (mergeSchemas schemas t) =
     fst (resolve_conflicts ResourceConflict (concat (map (\<lambda>s. or_empty (schema_resources s)) schemas)))"
  "fs_prompts (mergeSchemas schemas t) =
     fst (resolve_conflicts PromptConflict (concat (map (\<lambda>s. or_empty (schema_prompts s)) schemas)))"
  "fs_conflicts (mergeSchemas schemas t) =
     snd (resolve_conflicts ToolConflict (concat (map (\<lambda>s. or_empty (schema_tools s)) schemas))) @
     snd (resolve_conflicts ResourceConflict (concat (map (\<lambda>s. or_empty (schema_resources s)) schemas))) @
     snd (resolve_conflicts PromptConflict (concat (map (\<lambda>s. or_empty (schema_prompts s)) schemas)))"
  by (simp_all add: mergeSchemas_def Let_def resolveToolConflicts_def resolveResourceConflicts_def
      resolvePromptConflicts_def split: prod.splits)

text \<open>
  The result holds each definition of the input once: as it came when no other has its
  name, renamed otherwise.
\<close>

lemma group_add_mset:
  "mset (concat (map snd (group_add d m))) = mset (concat (map snd m)) + {#d#}"
  by (induction m) auto

lemma group_foldl_mset:
  "mset (concat (map snd (foldl (\<lambda>m d. group_add d m) m defs))) =
     mset (concat (map snd m)) + mset defs"
  by (induction defs arbitrary: m) (simp_all add: group_add_mset)

lemma group_by_name_mset: "mset (concat (map snd (group_by_name defs))) = mset defs"
  by (simp add: group_by_name_def group_foldl_mset)

lemma grouped_members:
  assumes "grouped m defs" and "(k, ds) \<in> set m"
  shows "ds = filter (\<lambda>d. name d = k) defs" and "ds \<noteq> []"
proof -
  have "distinct (map fst m)" using assms(1) by (simp add: grouped_def)
  then have "map_of m k = Some ds" using assms(2) by (rule map_of_is_SomeI)
  then have "(if filter (\<lambda>d. name d = k) defs = [] then None
              else Some (filter (\<lambda>d. name d = k) defs)) = Some ds"
    using assms(1) by (simp add: grouped_def)
  then show "ds = filter (\<lambda>d. name d = k) defs" and "ds \<noteq> []"
    by (auto split: if_splits)
qed

lemma grouped_keys:
  assumes "grouped m defs"
  shows "k \<in> set (map fst m) \<longleftrightarrow> filter (\<lambda>d. name d = k) defs \<noteq> []"
proof -
  have "map_of m k = (if filter (\<lambda>d. name d = k) defs = [] then None
                       else Some (filter (\<lambda>d. name d = k) defs))"
    using assms by (simp add: grouped_def)
  moreover have "k \<in> set (map fst m) \<longleftrightarrow> map_of m k \<noteq> None"
    by (simp add: map_of_eq_None_iff)
  ultimately show ?thesis by simp
qed

lemma resolve_entries_map:
  assumes "\<forall>(k, ds)\<in>set m. ds = filter (\<lambda>d. name d = k) defs"
  shows "fst (resolve_entries kind m) = map (rename_rule defs) (concat (map snd m))"
  using assms
proof (induction m)
  case Nil
  then show ?case by simp
next
  case (Cons e m)
  obtain k ds where e: "e = (k, ds)" by (cases e)
  have ds: "ds = filter (\<lambda>d. name d = k) defs" using Cons.prems e by simp
  have same: "filter (\<lambda>z. name z = name x) defs = ds" if "x \<in> set ds" for x
  proof -
    have "x \<in> set (filter (\<lambda>d. name d = k) defs)" using that ds by simp
    then have "name x = k" by simp
    then show ?thesis using ds by simp
  qed
  have here: "(if length ds = 1 then [ds ! 0] else map namespaced ds) = map (rename_rule defs) ds"
  proof (cases "length ds = 1")
    case True
    then obtain x where x: "ds = [x]" by (cases ds) auto
    then show ?thesis using same[of x] by (simp add: rename_rule_def)
  next
    case False
    then show ?thesis using same by (simp add: rename_rule_def)
  qed
  have "fst (resolve_entries kind m) = map (rename_rule defs) (concat (map snd m))"
    using Cons by simp
  then show ?case using here e by (auto split: prod.splits)
qed

lemma resolve_conflicts_mset:
  "mset (fst (resolve_conflicts kind defs)) = image_mset (rename_rule defs) (mset defs)"
proof -
  have g: "grouped (group_by_name defs) defs" by (rule grouped_group_by_name)
  have "\<forall>(k, ds)\<in>set (group_by_name defs). ds = filter (\<lambda>d. name d = k) defs"
    using grouped_members(1)[OF g] by auto
  then have "fst (resolve_conflicts kind defs) =
      map (rename_rule defs) (concat (map snd (group_by_name defs)))"
    by (simp add: resolve_conflicts_def resolve_entries_map)
  then have "mset (fst (resolve_conflicts kind defs)) =
      image_mset (rename_rule defs) (mset (concat (map snd (group_by_name defs))))"
    by (simp only: mset_map)
  then show ?thesis by (simp only: group_by_name_mset)
qed

lemma resolve_conflicts_none:
  assumes "filter (\<lambda>x. name x = n) defs = []"
  shows "filter (\<lambda>c. conflict_name c = n) (snd (resolve_conflicts kind defs)) = []"
proof -
  have g: "grouped (group_by_name defs) defs" by (rule grouped_group_by_name)
  have "n \<notin> set (map fst (group_by_name defs))" using grouped_keys[OF g, of n] assms by simp
  then show ?thesis by (simp add: resolve_conflicts_def resolve_entries_no_key)
qed

text \<open>
  Claim C2.  In the merged schema, for tools, for resources and for prompts alike: a
  definition that is the only one of its name among all schemas is in the result as it
  came, and no conflict of its kind carries that name; where two or more definitions share
  a name, each of them is in the result renamed to \<open>namespace:name\<close> (the first as well;
  \<open>unknown\<close> stands for a missing or empty namespace), and exactly one conflict of that kind
  carries the name, listing the namespaces of all of them with resolution \<open>namespace\<close>; a
  name no definition has carries no conflict.  The result holds nothing else: as a
  multiset it is the input with each definition passed through \<open>rename_rule\<close>, unchanged
  when it alone has its name and renamed otherwise.
\<close>

theorem mergeSchemas_resolves_conflicts:
  fixes schemas :: "MCPSchema list" and t :: int
  defines "merged \<equiv> mergeSchemas schemas t"
    and "allTools \<equiv> concat (map (\<lambda>s. or_empty (schema_tools s)) schemas)"
    and "allResources \<equiv> concat (map (\<lambda>s. or_empty (schema_resources s)) schemas)"
    and "allPrompts \<equiv> concat (map (\<lambda>s. or_empty (schema_prompts s)) schemas)"
  shows "(filter (\<lambda>x. name x = n) allTools = [tool] \<longrightarrow>
            tool \<in> set (fs_tools merged) \<and>
            filter (\<lambda>c. conflict_kind c = ToolConflict \<and> conflict_name c = n)
              (fs_conflicts merged) = [])
       \<and> (2 \<le> length (filter (\<lambda>x. name x = n) allTools) \<longrightarrow>
            (\<forall>x\<in>set (filter (\<lambda>x. name x = n) allTools).
               x\<lparr>name := namespace_or_unknown x @ '':'' @ name x\<rparr> \<in> set (fs_tools merged)) \<and>
            filter (\<lambda>c. conflict_kind c = ToolConflict \<and> conflict_name c = n)
              (fs_conflicts merged) =
              [\<lparr>conflict_kind = ToolConflict, conflict_name = n,
                conflict_servers = map namespace_or_unknown (filter (\<lambda>x. name x = n) allTools),
                conflict_resolution = ByNamespace\<rparr>])
       \<and> (filter (\<lambda>x. name x = n) allResources = [resource] \<longrightarrow>
            resource \<in> set (fs_resources merged) \<and>
            filter (\<lambda>c. conflict_kind c = ResourceConflict \<and> conflict_name c = n)
              (fs_conflicts merged) = [])
       \<and> (2 \<le> length (filter (\<lambda>x. name x = n) allResources) \<longrightarrow>
            (\<forall>x\<in>set (filter (\<lambda>x. name x = n) allResources).
               x\<lparr>name := namespace_or_unknown x @ '':'' @ name x\<rparr> \<in> set (fs_resources merged)) \<and>
            filter (\<lambda>c. conflict_kind c = ResourceConflict \<and> conflict_name c = n)
              (fs_conflicts merged) =
              [\<lparr>conflict_kind = ResourceConflict, conflict_name = n,
                conflict_servers = map namespace_or_unknown (filter (\<lambda>x. name x = n) allResources),
                conflict_resolution = ByNamespace\<rparr>])
       \<and> (filter (\<lambda>x. name x = n) allPrompts = [prompt] \<longrightarrow>
            prompt \<in> set (fs_prompts merged) \<and>
            filter (\<lambda>c. conflict_kind c = PromptConflict \<and> conflict_name c = n)
              (fs_conflicts merged) = [])
       \<and> (2 \<le> length (filter (\<lambda>x. name x = n) allPrompts) \<longrightarrow>
            (\<forall>x\<in>set (filter (\<lambda>x. name x = n) allPrompts).
               x\<lparr>name := namespace_or_unknown x @ '':'' @ name x\<rparr> \<in> set (fs_prompts merged)) \<and>
            filter (\<lambda>c. conflict_kind c = PromptConflict \<and> conflict_name c = n)
              (fs_conflicts merged) =
              [\<lparr>conflict_kind = PromptConflict, conflict_name = n,
                conflict_servers = map namespace_or_unknown (filter (\<lambda>x. name x = n) allPrompts),
                conflict_resolution = ByNamespace\<rparr>])
       \<and> (filter (\<lambda>x. name x = n) allTools = [] \<longrightarrow>
            filter (\<lambda>c. conflict_kind c = ToolConflict \<and> conflict_name c = n)
              (fs_conflicts merged) = [])
       \<and> (filter (\<lambda>x. name x = n) allResources = [] \<longrightarrow>
            filter (\<lambda>c. conflict_kind c = ResourceConflict \<and> conflict_name c = n)
              (fs_conflicts merged) = [])
       \<and> (filter (\<lambda>x. name x = n) allPrompts = [] \<longrightarrow>
            filter (\<lambda>c. conflict_kind c = PromptConflict \<and> conflict_name c = n)
              (fs_conflicts merged) = [])
       \<and> mset (fs_tools merged) = image_mset (rename_rule allTools) (mset allTools)
       \<and> mset (fs_resources merged) = image_mset (rename_rule allResources) (mset allResources)
       \<and> mset (fs_prompts merged) = image_mset (rename_rule allPrompts) (mset allPrompts)
       \<and> (\<forall>c\<in>set (fs_conflicts merged).
             conflict_kind c = ToolConflict \<or> conflict_kind c = ResourceConflict \<or>
             conflict_kind c = PromptConflict)"
proof -
  obtain rt tc where T: "resolve_conflicts ToolConflict allTools = (rt, tc)" by fastforce
  obtain rr rc where R: "resolve_conflicts ResourceConflict allResources = (rr, rc)" by fastforce
  obtain rp pc where P: "resolve_conflicts PromptConflict allPrompts = (rp, pc)" by fastforce
  note rt = resolve_conflicts_rule[OF T, of n tool]
  note rr = resolve_conflicts_rule[OF R, of n resource]
  note rp = resolve_conflicts_rule[OF P, of n prompt]
  have kt: "\<forall>c\<in>set tc. conflict_kind c = ToolConflict" using rt by blast
  have kr: "\<forall>c\<in>set rc. conflict_kind c = ResourceConflict" using rr by blast
  have kp: "\<forall>c\<in>set pc. conflict_kind c = PromptConflict" using rp by blast
  have fields: "fs_tools merged = rt" "fs_resources merged = rr" "fs_prompts merged = rp"
    "fs_conflicts merged = tc @ rc @ pc"
    using T R P
    by (simp_all add: merged_def allTools_def allResources_def allPrompts_def mergeSchemas_fields)
  have ft: "filter (\<lambda>c. conflict_kind c = ToolConflict \<and> conflict_name c = n) (tc @ rc @ pc) =
      filter (\<lambda>c. conflict_name c = n) tc"
    by (simp add: filter_kind_name[OF kt] filter_kind_name[OF kr] filter_kind_name[OF kp])
  have fr: "filter (\<lambda>c. conflict_kind c = ResourceConflict \<and> conflict_name c = n) (tc @ rc @ pc) =
      filter (\<lambda>c. conflict_name c = n) rc"
    by (simp add: filter_kind_name[OF kt] filter_kind_name[OF kr] filter_kind_name[OF kp])
  have fp: "filter (\<lambda>c. conflict_kind c = PromptConflict \<and> conflict_name c = n) (tc @ rc @ pc) =
      filter (\<lambda>c. conflict_name c = n) pc"
    by (simp add: filter_kind_name[OF kt] filter_kind_name[OF kr] filter_kind_name[OF kp])
  have nt: "filter (\<lambda>x. name x = n) allTools = [] \<longrightarrow> filter (\<lambda>c. conflict_name c = n) tc = []"
    using resolve_conflicts_none[of n allTools ToolConflict] T by simp
  have nr: "filter (\<lambda>x. name x = n) allResources = [] \<longrightarrow> filter (\<lambda>c. conflict_name c = n) rc = []"
    using resolve_conflicts_none[of n allResources ResourceConflict] R by simp
  have np: "filter (\<lambda>x. name x = n) allPrompts = [] \<longrightarrow> filter (\<lambda>c. conflict_name c = n) pc = []"
    using resolve_conflicts_none[of n allPrompts PromptConflict] P by simp
  have mt: "mset rt = image_mset (rename_rule allTools) (mset allTools)"
    using resolve_conflicts_mset[of ToolConflict allTools] T by simp
  have mr: "mset rr = image_mset (rename_rule allResources) (mset allResources)"
    using resolve_conflicts_mset[of ResourceConflict allResources] R by simp
  have mp: "mset rp = image_mset (rename_rule allPrompts) (mset allPrompts)"
    using resolve_conflicts_mset[of PromptConflict allPrompts] P by simp
  have kinds: "\<forall>c\<in>set (tc @ rc @ pc).
             conflict_kind c = ToolConflict \<or> conflict_kind c = ResourceConflict \<or>
             conflict_kind c = PromptConflict"
    using kt kr kp by auto
  have main: "(filter (\<lambda>x. name x = n) allTools = [tool] \<longrightarrow>
            tool \<in> set rt \<and> filter (\<lambda>c. conflict_name c = n) tc = [])
       \<and> (2 \<le> length (filter (\<lambda>x. name x = n) allTools) \<longrightarrow>
            (\<forall>x\<in>set (filter (\<lambda>x. name x = n) allTools).
               x\<lparr>name := namespace_or_unknown x @ '':'' @ name x\<rparr> \<in> set rt) \<and>
            filter (\<lambda>c. conflict_name c = n) tc =
              [\<lparr>conflict_kind = ToolConflict, conflict_name = n,
                conflict_servers = map namespace_or_unknown (filter (\<lambda>x. name x = n) allTools),
                conflict_resolution = ByNamespace\<rparr>])
       \<and> (filter (\<lambda>x. name x = n) allResources = [resource] \<longrightarrow>
            resource \<in> set rr \<and> filter (\<lambda>c. conflict_name c = n) rc = [])
       \<and> (2 \<le> length (filter (\<lambda>x. name x = n) allResources) \<longrightarrow>
            (\<forall>x\<in>set (filter (\<lambda>x. name x = n) allResources).
               x\<lparr>name := namespace_or_unknown x @ '':'' @ name x\<rparr> \<in> set rr) \<and>
            filter (\<lambda>c. conflict_name c = n) rc =
              [\<lparr>conflict_kind = ResourceConflict, conflict_name = n,
                conflict_servers = map namespace_or_unknown (filter (\<lambda>x. name x = n) allResources),
                conflict_resolution = ByNamespace\<rparr>])
       \<and> (filter (\<lambda>x. name x = n) allPrompts = [prompt] \<longrightarrow>
            prompt \<in> set rp \<and> filter (\<lambda>c. conflict_name c = n) pc = [])
       \<and> (2 \<le> length (filter (\<lambda>x. name x = n) allPrompts) \<longrightarrow>
            (\<forall>x\<in>set (filter (\<lambda>x. name x = n) allPrompts).
               x\<lparr>name := namespace_or_unknown x @ '':'' @ name x\<rparr> \<in> set rp) \<and>
            filter (\<lambda>c. conflict_name c = n) pc =
              [\<lparr>conflict_kind = PromptConflict, conflict_name = n,
                conflict_servers = map namespace_or_unknown (filter (\<lambda>x. name x = n) allPrompts),
                conflict_resolution = ByNamespace\<rparr>])"
    using rt rr rp by (simp add: namespaced_def conflict_of_def)
  show ?thesis
    unfolding fields ft fr fp
    using main nt nr np mt mr mp kinds by (intro conjI) blast+
qed

theorem mergeSchemas_resolves_conflicts_witness:
  "mk_tool ''fetch'' ''alpha'' \<in> set (fs_tools (mergeSchemas two_schemas 0))
   \<and> filter (\<lambda>c. conflict_kind c = ToolConflict \<and> conflict_name c = ''fetch'')
        (fs_conflicts (mergeSchemas two_schemas 0)) = []
   \<and> mk_tool ''alpha:search'' ''alpha'' \<in> set (fs_tools (mergeSchemas two_schemas 0))
   \<and> mk_tool ''beta:search'' ''beta'' \<in> set (fs_tools (mergeSchemas two_schemas 0))
   \<and> filter (\<lambda>c. conflict_kind c = ToolConflict \<and> conflict_name c = ''search'')
        (fs_conflicts (mergeSchemas two_schemas 0)) =
       [\<lparr>conflict_kind = ToolConflict, conflict_name = ''search'',
         conflict_servers = [''alpha'', ''beta''], conflict_resolution = ByNamespace\<rparr>]
   \<and> mk_resource ''alpha:docs'' ''alpha'' \<in> set (fs_resources (mergeSchemas two_schemas 0))
   \<and> filter (\<lambda>c. conflict_kind c = ResourceConflict \<and> conflict_name c = ''docs'')
        (fs_conflicts (mergeSchemas two_schemas 0)) =
       [\<lparr>conflict_kind = ResourceConflict, conflict_name = ''docs'',
         conflict_servers = [''alpha'', ''beta''], conflict_resolution = ByNamespace\<rparr>]
   \<and> mk_prompt ''summarize'' ''beta'' \<in> set (fs_prompts (mergeSchemas two_schemas 0))
   \<and> filter (\<lambda>c. conflict_kind c = PromptConflict \<and> conflict_name c = ''summarize'')
        (fs_conflicts (mergeSchemas two_schemas 0)) = []
   \<and> filter (\<lambda>c. conflict_kind c = PromptConflict \<and> conflict_name c = ''search'')
        (fs_conflicts (mergeSchemas two_schemas 0)) = []
   \<and> mset (fs_tools (mergeSchemas two_schemas 0)) =
       {#mk_tool ''alpha:search'' ''alpha'', mk_tool ''fetch'' ''alpha'',
         mk_tool ''beta:search'' ''beta''#}"
  using mergeSchemas_resolves_conflicts [where schemas = two_schemas and t = 0 and n = "''fetch''"
      and tool = "mk_tool ''fetch'' ''alpha''"]
    mergeSchemas_resolves_conflicts [where schemas = two_schemas and t = 0 and n = "''search''"]
    mergeSchemas_resolves_conflicts [where schemas = two_schemas and t = 0 and n = "''docs''"]
    mergeSchemas_resolves_conflicts [where schemas = two_schemas and t = 0 and n = "''summarize''"
      and prompt = "mk_prompt ''summarize'' ''beta''"]
  by (simp add: two_schemas_def or_empty_def mk_tool_def mk_resource_def mk_prompt_def
      namespace_or_unknown_def rename_rule_def namespaced_def)

section \<open>The proxy\<close>

lemma setCachedData_keeps:
  "setCachedData ctx k d ttl = (r, ctx1) \<Longrightarrow>
     now ctx1 = now ctx \<and> calls ctx1 = calls ctx \<and> ip ctx1 = ip ctx"
  by (auto simp: setCachedData_def kv_put_def split: sum.splits option.splits)

lemma getRegistry_calls:
  "calls (snd (getRegistry pf ctx)) = calls ctx \<or>
   calls (snd (getRegistry pf ctx)) = calls ctx @ [(RegistryFetch, registry_request)]"
proof -
  obtain r c1 where g: "getCachedData ctx REGISTRY_CACHE_KEY = (r, c1)"
    by (cases "getCachedData ctx REGISTRY_CACHE_KEY") auto
  from getCachedData_keeps [OF g] have k1: "calls c1 = calls ctx" by simp
  show ?thesis
  proof (cases r)
    case (Some cached)
    then show ?thesis using g k1 by (simp add: getRegistry_def getRegistry_try_def)
  next
    case None
    obtain res d where f: "fetch pf registry_request = (res, d)"
      by (cases "fetch pf registry_request") auto
    obtain x c2 where fr: "fetchRegistryFromGitHub pf c1 = (x, c2)"
      by (cases "fetchRegistryFromGitHub pf c1") auto
    from fetch_registry_context [OF f, of c1] fr
    have k2: "calls c2 = calls ctx @ [(RegistryFetch, registry_request)]"
      using k1 by simp
    show ?thesis
    proof (cases x)
      case (Inl e)
      then show ?thesis using g None fr k2 by (simp add: getRegistry_def getRegistry_try_def)
    next
      case (Inr reg)
      obtain s c3 where st: "setCachedData c2 REGISTRY_CACHE_KEY reg REGISTRY_CACHE_TTL = (s, c3)"
        by (cases "setCachedData c2 REGISTRY_CACHE_KEY reg REGISTRY_CACHE_TTL") auto
      from setCachedData_keeps [OF st] have "calls c3 = calls c2" by simp
      then show ?thesis using g None fr k2 Inr st
        by (simp add: getRegistry_def getRegistry_try_def)
    qed
  qed
qed

lemma getServer_calls:
  "calls (snd (getServer pf ctx sid)) = calls ctx \<or>
   calls (snd (getServer pf ctx sid)) = calls ctx @ [(RegistryFetch, registry_request)]"
  using getRegistry_calls [of pf ctx]
  by (cases "getRegistry pf ctx") (simp add: getServer_def)

lemma checkRateLimit_calls: "calls (snd (checkRateLimit c)) = calls c"
  by (auto simp: checkRateLimit_def checkRateLimit_try_def Let_def kv_put_def
      split: option.splits sum.splits kv_value.splits if_splits)

lemma logProxyRequest_calls: "calls (logProxyRequest c entry) = calls c"
  by (simp add: logProxyRequest_def split: option.splits)

lemma proxy_send_calls:
  "calls (snd (proxy_send pf c sid targetUrl meth hs b)) =
     calls c @ [(ProxyForward, \<lparr>req_url = href targetUrl, req_method = toUpperCase meth,
                                 req_headers = hs, req_body = b\<rparr>)]"
  by (simp add: proxy_send_def do_fetch_with_timeout_def Let_def logProxyRequest_calls
      split: prod.splits fetch_result.splits)

lemma proxy_send_result:
  assumes "fetch pf \<lparr>req_url = href targetUrl, req_method = toUpperCase meth,
                     req_headers = hs, req_body = b\<rparr> = (res, d)"
  shows "PROXY_TIMEOUT < d \<Longrightarrow>
           fst (proxy_send pf c sid targetUrl meth hs b) = Inl (JsError ''Error'' ''Request timeout'')"
    and "d \<le> PROXY_TIMEOUT \<Longrightarrow> res = Rejected e \<Longrightarrow>
           fst (proxy_send pf c sid targetUrl meth hs b) =
             Inl (JsError ''Error''
                    (case e of JsError nm msg \<Rightarrow> if nm = ''AbortError'' then ''Request timeout'' else msg
                     | NonError \<Rightarrow> ''Request failed''))"
    and "d \<le> PROXY_TIMEOUT \<Longrightarrow> res = Responded r \<Longrightarrow>
           fst (proxy_send pf c sid targetUrl meth hs b) =
             Inr \<lparr>success = True, proxy_status = resp_status r, statusText = resp_statusText r,
                  headers = resp_headers r, body = resp_body r, proxy_responseTime = d,
                  proxy_error = None\<rparr>"
  using assms
  by (simp_all add: proxy_send_def do_fetch_with_timeout_def fetch_with_timeout_def Let_def
      abortError_def)

lemma proxyRequest_try_checked:
  assumes "toUpperCase meth \<in> set ALLOWED_METHODS"
    and "getServer pf ctx sid = (Some server, ctx1)"
    and "healthStatus server \<noteq> Offline"
    and "allowed (fst (checkRateLimit ctx1))"
    and "new_URL pf targetPath (Some (url server)) = Some targetUrl"
    and "new_URL pf (url server) None = Some serverUrl"
  shows "proxyRequest_try pf ctx sid targetPath meth hdrs payload =
     (if origin targetUrl \<noteq> origin serverUrl then
        (Inl (JsError ''Error'' (''Target URL must be within the server'' @ [CHR 0x27] @ ''s domain'')),
         snd (checkRateLimit ctx1))
      else if body_truthy payload \<and> toUpperCase meth \<in> set [''POST'', ''PUT'', ''PATCH''] \<and>
              length (body_text payload) > MAX_BODY_SIZE then
        (Inl (JsError ''Error'' ''Request body too large''), snd (checkRateLimit ctx1))
      else proxy_send pf (snd (checkRateLimit ctx1)) sid targetUrl meth
             (prepareProxyHeaders hdrs server)
             (if body_truthy payload \<and> toUpperCase meth \<in> set [''POST'', ''PUT'', ''PATCH'']
              then Some (body_text payload) else None))"
proof -
  obtain rl c2 where r: "checkRateLimit ctx1 = (rl, c2)"
    by (cases "checkRateLimit ctx1") auto
  with assms(4) have a: "allowed rl" by simp
  show ?thesis
    using assms(1,2,3,5,6) r a by (auto simp: proxyRequest_try_def Let_def)
qed

lemma proxyRequest_try_rejects_calls:
  assumes "getServer pf ctx sid = (Some server, ctx1)"
    and "new_URL pf targetPath (Some (url server)) = Some targetUrl"
    and "new_URL pf (url server) None = Some serverUrl"
    and "origin targetUrl \<noteq> origin serverUrl"
  shows "\<exists>e. fst (proxyRequest_try pf ctx sid targetPath meth hdrs payload) = Inl e"
    and "calls (snd (proxyRequest_try pf ctx sid targetPath meth hdrs payload)) = calls ctx \<or>
         calls (snd (proxyRequest_try pf ctx sid targetPath meth hdrs payload)) = calls ctx1"
proof -
  obtain rl c2 where r: "checkRateLimit ctx1 = (rl, c2)"
    by (cases "checkRateLimit ctx1") auto
  from checkRateLimit_calls [of ctx1] r have c: "calls c2 = calls ctx1" by simp
  show "\<exists>e. fst (proxyRequest_try pf ctx sid targetPath meth hdrs payload) = Inl e"
    using assms r by (simp add: proxyRequest_try_def Let_def)
  show "calls (snd (proxyRequest_try pf ctx sid targetPath meth hdrs payload)) = calls ctx \<or>
         calls (snd (proxyRequest_try pf ctx sid targetPath meth hdrs payload)) = calls ctx1"
    using assms r c by (simp add: proxyRequest_try_def Let_def)
qed

lemma proxyRequest_unfold:
  "fst (proxyRequest pf ctx sid targetPath meth hdrs payload) =
     (case fst (proxyRequest_try pf ctx sid targetPath meth hdrs payload) of
        Inr response \<Rightarrow> response
      | Inl e \<Rightarrow> \<lparr>success = False, proxy_status = 500, statusText = ''Internal Server Error'',
            headers = [], body = [], proxy_responseTime = 0,
            proxy_error = Some (error_text e ''Unknown error'')\<rparr>)"
  "snd (proxyRequest pf ctx sid targetPath meth hdrs payload) =
     snd (proxyRequest_try pf ctx sid targetPath meth hdrs payload)"
  by (simp_all add: proxyRequest_def split: prod.splits sum.splits)

lemma probe_server_fields:
  "server_id probe_server = ''example-mcp''" "url probe_server = ''https://example.com/mcp''"
  "healthStatus probe_server = Unknown" "auth probe_server = Some \<lparr>auth_kind = AuthNone, required = False\<rparr>"
  "verified probe_server"
  by (simp_all add: probe_server_def)

lemma proxy_platform_lookup:
  "getServer (proxy_platform server upstream) base_ctx (server_id server) =
     (Some server,
      base_ctx\<lparr>MCP_CACHE := healthy_store\<lparr>entries := (\<lambda>k. None)(''registry'' \<mapsto>
                   (VCacheEntry \<lparr>registry_version = ''1.0.0'', lastUpdated = 900000,
                      servers = [server],
                      stats = \<lparr>totalServers = 1, onlineServers = 0, totalRequests = 0\<rparr>\<rparr>
                      1000030 300, 1360030))\<rparr>,
               now := 1000030, calls := [(RegistryFetch, registry_request)]\<rparr>)"
  by (simp add: getServer_def getRegistry_def getRegistry_try_def getCachedData_def kv_get_def
      base_ctx_def healthy_store_def fetchRegistryFromGitHub_def do_fetch_def proxy_platform_def
      registry_request_def ok200_def resp_ok_def sample_doc_def setCachedData_def kv_put_def
      REGISTRY_CACHE_KEY_def REGISTRY_CACHE_TTL_def)

lemma proxy_platform_admits:
  "allowed (fst (checkRateLimit
      (base_ctx\<lparr>MCP_CACHE := healthy_store\<lparr>entries := (\<lambda>k. None)(''registry'' \<mapsto> v)\<rparr>,
               now := 1000030, calls := cs\<rparr>)))"
  by (simp add: checkRateLimit_def checkRateLimit_try_def kv_get_def kv_put_def base_ctx_def
      healthy_store_def RATE_LIMIT_MAX_REQUESTS_def Let_def)

lemma https_URL_examples:
  "https_URL ''https://example.com/mcp'' None =
     Some \<lparr>origin = ''https://example.com'', href = ''https://example.com/mcp''\<rparr>"
  "https_URL ''/ping'' (Some ''https://example.com/mcp'') =
     Some \<lparr>origin = ''https://example.com'', href = ''https://example.com/ping''\<rparr>"
  "https_URL ''https://evil.example/steal'' (Some ''https://example.com/mcp'') =
     Some \<lparr>origin = ''https://evil.example'', href = ''https://evil.example/steal''\<rparr>"
  "https_URL ''//evil.example/steal'' (Some ''https://example.com/mcp'') =
     Some \<lparr>origin = ''https://evil.example'', href = ''https://evil.example/steal''\<rparr>"
  by (simp_all add: https_URL_def https_origin_def)

lemma prepare_plain: "prepareProxyHeaders [] probe_server =
    [(''User-Agent'', ''MCP-Hub-Proxy/1.0''), (''Accept'', ''application/json''),
     (''Content-Type'', ''application/json'')]"
  by (simp add: prepareProxyHeaders_def probe_server_fields obj_truthy_def hopByHopHeaders_def
      obj_delete_def Let_def)

text \<open>
  C1.  Let the server be registered and let the requested path, resolved against the
  server's url, and the server's url both parse.  If the two origins differ, \<open>proxyRequest\<close>
  answers with a failure (\<open>success = False\<close>, status 500, an error text), and the only
  outbound call it can have made is the fetch of the registry: no call is forwarded, to
  the resolved URL or anywhere else.  When the request passed the earlier checks (method,
  server not offline, rate limit), the failure is the origin rejection itself.  If the
  origins are equal and the request passed those checks and the body limit, the rejection
  does not fire: exactly one call is forwarded, to the resolved URL, and a response that
  arrives within the 30 s limit is handed back as a success.
\<close>

theorem proxyRequest_origin_check:
  assumes "getServer pf ctx sid = (Some server, ctx1)"
    and "new_URL pf targetPath (Some (url server)) = Some targetUrl"
    and "new_URL pf (url server) None = Some serverUrl"
  shows
    "(origin targetUrl \<noteq> origin serverUrl \<longrightarrow>
        \<not> success (fst (proxyRequest pf ctx sid targetPath meth hdrs payload)) \<and>
        proxy_status (fst (proxyRequest pf ctx sid targetPath meth hdrs payload)) = 500 \<and>
        proxy_error (fst (proxyRequest pf ctx sid targetPath meth hdrs payload)) \<noteq> None \<and>
        (calls (snd (proxyRequest pf ctx sid targetPath meth hdrs payload)) = calls ctx \<or>
         calls (snd (proxyRequest pf ctx sid targetPath meth hdrs payload)) =
           calls ctx @ [(RegistryFetch, registry_request)]) \<and>
        filter (\<lambda>c. fst c = ProxyForward)
          (calls (snd (proxyRequest pf ctx sid targetPath meth hdrs payload))) =
        filter (\<lambda>c. fst c = ProxyForward) (calls ctx)) \<and>
     (origin targetUrl \<noteq> origin serverUrl \<and> toUpperCase meth \<in> set ALLOWED_METHODS \<and>
      healthStatus server \<noteq> Offline \<and> allowed (fst (checkRateLimit ctx1)) \<longrightarrow>
        proxy_error (fst (proxyRequest pf ctx sid targetPath meth hdrs payload)) =
          Some (''Target URL must be within the server'' @ [CHR 0x27] @ ''s domain'')) \<and>
     (origin targetUrl = origin serverUrl \<and> toUpperCase meth \<in> set ALLOWED_METHODS \<and>
      healthStatus server \<noteq> Offline \<and> allowed (fst (checkRateLimit ctx1)) \<and>
      \<not> (body_truthy payload \<and> toUpperCase meth \<in> set [''POST'', ''PUT'', ''PATCH''] \<and>
         length (body_text payload) > MAX_BODY_SIZE) \<longrightarrow>
        calls (snd (proxyRequest pf ctx sid targetPath meth hdrs payload)) =
          calls ctx1 @
            [(ProxyForward,
              \<lparr>req_url = href targetUrl, req_method = toUpperCase meth,
               req_headers = prepareProxyHeaders hdrs server,
               req_body = (if body_truthy payload \<and>
                              toUpperCase meth \<in> set [''POST'', ''PUT'', ''PATCH'']
                           then Some (body_text payload) else None)\<rparr>)] \<and>
        (\<forall>r d. fetch pf \<lparr>req_url = href targetUrl, req_method = toUpperCase meth,
                   req_headers = prepareProxyHeaders hdrs server,
                   req_body = (if body_truthy payload \<and>
                                  toUpperCase meth \<in> set [''POST'', ''PUT'', ''PATCH'']
                               then Some (body_text payload) else None)\<rparr> = (Responded r, d) \<and>
                d \<le> PROXY_TIMEOUT \<longrightarrow>
           fst (proxyRequest pf ctx sid targetPath meth hdrs payload) =
             \<lparr>success = True, proxy_status = resp_status r, statusText = resp_statusText r,
              headers = resp_headers r, body = resp_body r, proxy_responseTime = d,
              proxy_error = None\<rparr>))"
proof -
  let ?R = "proxyRequest pf ctx sid targetPath meth hdrs payload"
  let ?T = "proxyRequest_try pf ctx sid targetPath meth hdrs payload"
  let ?body = "if body_truthy payload \<and> toUpperCase meth \<in> set [''POST'', ''PUT'', ''PATCH'']
               then Some (body_text payload) else None"
  let ?req = "\<lparr>req_url = href targetUrl, req_method = toUpperCase meth,
               req_headers = prepareProxyHeaders hdrs server, req_body = ?body\<rparr>"
  from getServer_calls [of pf ctx sid] assms(1)
  have lookup: "calls ctx1 = calls ctx \<or> calls ctx1 = calls ctx @ [(RegistryFetch, registry_request)]"
    by simp
  have differ: "\<not> success (fst ?R) \<and> proxy_status (fst ?R) = 500 \<and> proxy_error (fst ?R) \<noteq> None \<and>
        (calls (snd ?R) = calls ctx \<or> calls (snd ?R) = calls ctx @ [(RegistryFetch, registry_request)]) \<and>
        filter (\<lambda>c. fst c = ProxyForward) (calls (snd ?R)) = filter (\<lambda>c. fst c = ProxyForward) (calls ctx)"
    if d: "origin targetUrl \<noteq> origin serverUrl"
  proof -
    from proxyRequest_try_rejects_calls [OF assms d, of meth hdrs payload]
    obtain e where e: "fst ?T = Inl e"
      and c: "calls (snd ?T) = calls ctx \<or> calls (snd ?T) = calls ctx1"
      by blast
    from c lookup
    have c': "calls (snd ?R) = calls ctx \<or> calls (snd ?R) = calls ctx @ [(RegistryFetch, registry_request)]"
      by (auto simp: proxyRequest_unfold(2))
    then have "filter (\<lambda>c. fst c = ProxyForward) (calls (snd ?R)) =
        filter (\<lambda>c. fst c = ProxyForward) (calls ctx)"
      by auto
    with e c' show ?thesis by (simp add: proxyRequest_unfold(1))
  qed
  have reason: "proxy_error (fst ?R) =
          Some (''Target URL must be within the server'' @ [CHR 0x27] @ ''s domain'')"
    if "origin targetUrl \<noteq> origin serverUrl" "toUpperCase meth \<in> set ALLOWED_METHODS"
      "healthStatus server \<noteq> Offline" "allowed (fst (checkRateLimit ctx1))"
    using proxyRequest_try_checked [OF that(2) assms(1) that(3,4) assms(2,3), of hdrs payload] that(1)
    by (simp add: proxyRequest_unfold(1) error_text_def)
  have same: "calls (snd ?R) = calls ctx1 @ [(ProxyForward, ?req)] \<and>
        (\<forall>r d. fetch pf ?req = (Responded r, d) \<and> d \<le> PROXY_TIMEOUT \<longrightarrow>
           fst ?R =
             \<lparr>success = True, proxy_status = resp_status r, statusText = resp_statusText r,
              headers = resp_headers r, body = resp_body r, proxy_responseTime = d,
              proxy_error = None\<rparr>)"
    if s: "origin targetUrl = origin serverUrl" "toUpperCase meth \<in> set ALLOWED_METHODS"
      "healthStatus server \<noteq> Offline" "allowed (fst (checkRateLimit ctx1))"
      "\<not> (body_truthy payload \<and> toUpperCase meth \<in> set [''POST'', ''PUT'', ''PATCH''] \<and>
         length (body_text payload) > MAX_BODY_SIZE)"
  proof -
    from proxyRequest_try_checked [OF s(2) assms(1) s(3,4) assms(2,3), of hdrs payload] s(1,5)
    have t: "?T = proxy_send pf (snd (checkRateLimit ctx1)) sid targetUrl meth
                    (prepareProxyHeaders hdrs server) ?body"
      by (simp only: if_False simp_thms)
    have c: "calls (snd ?R) = calls ctx1 @ [(ProxyForward, ?req)]"
      unfolding proxyRequest_unfold(2) t proxy_send_calls checkRateLimit_calls ..
    have "fst ?R =
             \<lparr>success = True, proxy_status = resp_status r, statusText = resp_statusText r,
              headers = resp_headers r, body = resp_body r, proxy_responseTime = d,
              proxy_error = None\<rparr>"
      if f: "fetch pf ?req = (Responded r, d)" and d: "d \<le> PROXY_TIMEOUT" for r d
      unfolding proxyRequest_unfold(1) t
      using proxy_send_result(3) [OF f d refl, of "snd (checkRateLimit ctx1)" sid] by simp
    with c show ?thesis by blast
  qed
  from differ reason same show ?thesis by blast
qed

theorem proxyRequest_origin_check_witness:
  "\<not> success (fst (proxyRequest (proxy_platform probe_server (Responded pong, 40)) base_ctx
        ''example-mcp'' ''https://evil.example/steal'' ''GET'' [] NoBody))
   \<and> proxy_error (fst (proxyRequest (proxy_platform probe_server (Responded pong, 40)) base_ctx
        ''example-mcp'' ''https://evil.example/steal'' ''GET'' [] NoBody)) =
       Some (''Target URL must be within the server'' @ [CHR 0x27] @ ''s domain'')
   \<and> filter (\<lambda>c. fst c = ProxyForward)
        (calls (snd (proxyRequest (proxy_platform probe_server (Responded pong, 40)) base_ctx
           ''example-mcp'' ''https://evil.example/steal'' ''GET'' [] NoBody))) = []
   \<and> proxy_error (fst (proxyRequest (proxy_platform probe_server (Responded pong, 40)) base_ctx
        ''example-mcp'' ''//evil.example/steal'' ''GET'' [] NoBody)) =
       Some (''Target URL must be within the server'' @ [CHR 0x27] @ ''s domain'')
   \<and> calls (snd (proxyRequest (proxy_platform probe_server (Responded pong, 40)) base_ctx
        ''example-mcp'' ''/ping'' ''GET'' [] NoBody)) =
       [(RegistryFetch, registry_request),
        (ProxyForward,
         \<lparr>req_url = ''https://example.com/ping'', req_method = ''GET'',
          req_headers = [(''User-Agent'', ''MCP-Hub-Proxy/1.0''), (''Accept'', ''application/json''),
                         (''Content-Type'', ''application/json'')],
          req_body = None\<rparr>)]
   \<and> fst (proxyRequest (proxy_platform probe_server (Responded pong, 40)) base_ctx
        ''example-mcp'' ''/ping'' ''GET'' [] NoBody) =
       \<lparr>success = True, proxy_status = 200, statusText = ''OK'',
        headers = [(''content-type'', ''text/plain'')], body = ''pong'', proxy_responseTime = 40,
        proxy_error = None\<rparr>"
proof -
  let ?P = "proxy_platform probe_server (Responded pong, 40)"
  note g = proxy_platform_lookup [of probe_server "(Responded pong, 40)",
      unfolded probe_server_fields(1)]
  have base: "new_URL ?P (url probe_server) None =
      Some \<lparr>origin = ''https://example.com'', href = ''https://example.com/mcp''\<rparr>"
    and evil: "new_URL ?P ''https://evil.example/steal'' (Some (url probe_server)) =
      Some \<lparr>origin = ''https://evil.example'', href = ''https://evil.example/steal''\<rparr>"
    and evil2: "new_URL ?P ''//evil.example/steal'' (Some (url probe_server)) =
      Some \<lparr>origin = ''https://evil.example'', href = ''https://evil.example/steal''\<rparr>"
    and ping: "new_URL ?P ''/ping'' (Some (url probe_server)) =
      Some \<lparr>origin = ''https://example.com'', href = ''https://example.com/ping''\<rparr>"
    by (simp_all add: proxy_platform_def probe_server_fields https_URL_examples)
  have get: "toUpperCase ''GET'' = ''GET''" "''GET'' \<in> set ALLOWED_METHODS"
    "\<not> body_truthy NoBody"
    by (simp_all add: toUpperCase_def toUpperChar_def ALLOWED_METHODS_def body_truthy_def)
  have up: "\<And>u. fetch ?P \<lparr>req_url = ''https://example.com/ping'', req_method = ''GET'',
               req_headers = u, req_body = None\<rparr> = (Responded pong, 40)"
    by (simp add: proxy_platform_def GITHUB_REGISTRY_URL_def)
  have nocalls: "calls (base_ctx :: Registry RequestContext) = []"
    by (simp add: base_ctx_def)
  note w1 = proxyRequest_origin_check [OF g evil base,
      where meth = "''GET''" and hdrs = "[]" and payload = NoBody]
  note w2 = proxyRequest_origin_check [OF g evil2 base,
      where meth = "''GET''" and hdrs = "[]" and payload = NoBody]
  note w3 = proxyRequest_origin_check [OF g ping base,
      where meth = "''GET''" and hdrs = "[]" and payload = NoBody]
  from w1 have c1: "\<not> success (fst (proxyRequest ?P base_ctx
        ''example-mcp'' ''https://evil.example/steal'' ''GET'' [] NoBody))"
    by simp
  from w1 have c2: "proxy_error (fst (proxyRequest ?P base_ctx
        ''example-mcp'' ''https://evil.example/steal'' ''GET'' [] NoBody)) =
       Some (''Target URL must be within the server'' @ [CHR 0x27] @ ''s domain'')"
    by (simp add: get probe_server_fields proxy_platform_admits)
  from w1 have c3: "filter (\<lambda>c. fst c = ProxyForward)
        (calls (snd (proxyRequest ?P base_ctx
           ''example-mcp'' ''https://evil.example/steal'' ''GET'' [] NoBody))) = []"
    by (simp add: nocalls)
  from w2 have c4: "proxy_error (fst (proxyRequest ?P base_ctx
        ''example-mcp'' ''//evil.example/steal'' ''GET'' [] NoBody)) =
       Some (''Target URL must be within the server'' @ [CHR 0x27] @ ''s domain'')"
    by (simp add: get probe_server_fields proxy_platform_admits)
  from w3 have c5: "calls (snd (proxyRequest ?P base_ctx ''example-mcp'' ''/ping'' ''GET'' [] NoBody)) =
       [(RegistryFetch, registry_request),
        (ProxyForward,
         \<lparr>req_url = ''https://example.com/ping'', req_method = ''GET'',
          req_headers = [(''User-Agent'', ''MCP-Hub-Proxy/1.0''), (''Accept'', ''application/json''),
                         (''Content-Type'', ''application/json'')],
          req_body = None\<rparr>)]"
    by (simp add: get probe_server_fields proxy_platform_admits prepare_plain)
  from w3 have "fst (proxyRequest ?P base_ctx ''example-mcp'' ''/ping'' ''GET'' [] NoBody) =
       \<lparr>success = True, proxy_status = resp_status pong, statusText = resp_statusText pong,
        headers = resp_headers pong, body = resp_body pong, proxy_responseTime = 40,
        proxy_error = None\<rparr>"
    by (simp add: get probe_server_fields proxy_platform_admits prepare_plain up PROXY_TIMEOUT_def)
  then have c6: "fst (proxyRequest ?P base_ctx ''example-mcp'' ''/ping'' ''GET'' [] NoBody) =
       \<lparr>success = True, proxy_status = 200, statusText = ''OK'',
        headers = [(''content-type'', ''text/plain'')], body = ''pong'', proxy_responseTime = 40,
        proxy_error = None\<rparr>"
    by (simp add: pong_def)
  from c1 c2 c3 c4 c5 c6 show ?thesis by (intro conjI)
qed

end
